theory Spec2Isabelle
  imports Complex_Main "HOL-Library.AList"
begin

section \<open>Python values, exceptions and dictionaries\<close>

text \<open>
  The exception classes that the two modules raise, or that the Python runtime raises on
  their behalf (a missing key, a missing attribute, a call that does not fit the
  signature of the callee).  The classes of \<^verbatim>\<open>paradime.exceptions\<close> keep their names.
\<close>

datatype exn =
    ValueError
  | KeyError
  | TypeError
  | AttributeError
  | IndexError
  | AssertionError
  | NotImplementedError
  | RuntimeError
  | ZeroDivisionError
  | LossNotDeterminedError
  | NoDatasetRegisteredError
  | NotTrainedError
  | RelationsNotComputedError

text \<open>Sequencing of computations that may raise: the first exception propagates.\<close>

definition bindE :: "exn + 'a \<Rightarrow> ('a \<Rightarrow> exn + 'b) \<Rightarrow> exn + 'b" where
  "bindE m f = (case m of Inl e \<Rightarrow> Inl e | Inr x \<Rightarrow> f x)"

text \<open>
  A Python \<^verbatim>\<open>dict\<close> is an association list in insertion order.  \<^verbatim>\<open>d[k]\<close> raises
  \<^verbatim>\<open>KeyError\<close> on a missing key; \<^verbatim>\<open>d[k] = v\<close> is \<^const>\<open>AList.update\<close>: it replaces
  the value in place when the key is present and appends the pair otherwise.
\<close>

type_synonym ('k, 'v) dict = "('k \<times> 'v) list"

definition getitem :: "('k, 'v) dict \<Rightarrow> 'k \<Rightarrow> exn + 'v" where
  "getitem d k = (case map_of d k of None \<Rightarrow> Inl KeyError | Some v \<Rightarrow> Inr v)"

definition contains :: "('k, 'v) dict \<Rightarrow> 'k \<Rightarrow> bool" where
  "contains d k = (map_of d k \<noteq> None)"




text \<open>
  A call that passes \<open>n\<close> positional arguments to a function with the given positional
  parameters, none of which has a default, and no \<^verbatim>\<open>*args\<close>.
\<close>

definition accepts_positional :: "string list \<Rightarrow> nat \<Rightarrow> bool" where
  "accepts_positional params n = (n = length params)"

section \<open>Module \<^verbatim>\<open>paradime.loss\<close>\<close>

text \<open>
  What the losses call but the two modules do not define: the methods of the model, of
  the relation data and of the batch relations, the test for an integer tensor and the
  default loss functions of the tensor library.  Tensors are values of an arbitrary type
  \<open>'t\<close>; a scalar loss is a real number.
\<close>

type_synonym 't LossFun = "'t \<Rightarrow> 't \<Rightarrow> exn + real"

record ('m, 'h, 'l, 't) externals =
  is_IntTensor :: "'t \<Rightarrow> bool"
  sub :: "'h \<Rightarrow> 't \<Rightarrow> exn + 't"
  compute_relations :: "'l \<Rightarrow> 't \<Rightarrow> exn + 't"
  embed :: "'m \<Rightarrow> 't \<Rightarrow> exn + 't"
  classify :: "'m \<Rightarrow> 't \<Rightarrow> exn + 't"
  encode :: "'m \<Rightarrow> 't \<Rightarrow> exn + 't"
  decode :: "'m \<Rightarrow> 't \<Rightarrow> exn + 't"
  MSELoss :: "'t LossFun"
  CrossEntropyLoss :: "'t LossFun"

text \<open>The class hierarchy below \<^verbatim>\<open>Loss\<close>, one constructor per class, with its attributes.\<close>

datatype 't loss =
    Loss string
  | RelationLoss string "'t LossFun"
  | ClassificationLoss string "'t LossFun"
  | PositionLoss string "'t LossFun"
  | ReconstructionLoss string "'t LossFun"
  | CompoundLoss string "'t loss list" "real list"

fun name_of :: "'t loss \<Rightarrow> string" where
  "name_of (Loss n) = n"
| "name_of (RelationLoss n f) = n"
| "name_of (ClassificationLoss n f) = n"
| "name_of (PositionLoss n f) = n"
| "name_of (ReconstructionLoss n f) = n"
| "name_of (CompoundLoss n ls ws) = n"

text \<open>
  \<^verbatim>\<open>Loss.__init__\<close>: the name is the class prefix followed by a fresh UUID when none is
  given.  The UUID that \<^verbatim>\<open>uuid.uuid4()\<close> draws is the parameter \<open>uid\<close>.
\<close>

definition Loss_init :: "string \<Rightarrow> string option \<Rightarrow> string \<Rightarrow> string" where
  "Loss_init prefix name uid = (case name of None \<Rightarrow> prefix @ uid | Some n \<Rightarrow> n)"





text \<open>
  \<^verbatim>\<open>CompoundLoss.__init__\<close>: absent weights become \<^verbatim>\<open>torch.ones(len(losses))\<close>; weights
  of another length than the losses raise \<^verbatim>\<open>ValueError\<close>.
\<close>

definition CompoundLoss_init ::
  "'t loss list \<Rightarrow> real list option \<Rightarrow> string option \<Rightarrow> string \<Rightarrow> exn + 't loss" where
  "CompoundLoss_init losses weights name uid =
     (let n = Loss_init ''comp_loss'' name uid in
      case weights of
        None \<Rightarrow> Inr (CompoundLoss n losses (replicate (length losses) 1))
      | Some ws \<Rightarrow>
          if length ws \<noteq> length losses then Inl ValueError
          else Inr (CompoundLoss n losses ws))"





text \<open>
  \<^verbatim>\<open>forward\<close> of every class.  The loop of \<^verbatim>\<open>CompoundLoss.forward\<close> over
  \<^verbatim>\<open>zip(self.losses, self.weights)\<close> is \<open>compound_sum\<close>, with the running total_loss as its last
  argument; it ends with the shorter of the two sequences.
\<close>

type_synonym 't batch = "(string, 't) dict"

fun forward ::
  "('m, 'h, 'l, 't) externals \<Rightarrow> 't loss \<Rightarrow> 'm \<Rightarrow> 'h \<Rightarrow> 'l \<Rightarrow> 't batch \<Rightarrow> exn + real"
and compound_sum ::
  "('m, 'h, 'l, 't) externals \<Rightarrow> 't loss list \<Rightarrow> real list \<Rightarrow> 'm \<Rightarrow> 'h \<Rightarrow> 'l \<Rightarrow> 't batch
    \<Rightarrow> real \<Rightarrow> exn + real"
where
  "forward ext (Loss n) model hd_relations ld_relations batch = Inl NotImplementedError"
| "forward ext (RelationLoss n f) model hd_relations ld_relations batch =
     bindE (getitem batch ''indices'') (\<lambda>i.
       if \<not> is_IntTensor ext i then Inl AssertionError
       else
         bindE (sub ext hd_relations i) (\<lambda>hd.
         bindE (getitem batch ''data'') (\<lambda>d.
         bindE (embed ext model d) (\<lambda>e.
         bindE (compute_relations ext ld_relations e) (\<lambda>ld. f hd ld)))))"
| "forward ext (ClassificationLoss n f) model hd_relations ld_relations batch =
     bindE (getitem batch ''data'') (\<lambda>d.
     bindE (classify ext model d) (\<lambda>c.
     bindE (getitem batch ''labels'') (\<lambda>y. f c y)))"
| "forward ext (PositionLoss n f) model hd_relations ld_relations batch =
     bindE (getitem batch ''data'') (\<lambda>d.
     bindE (embed ext model d) (\<lambda>e.
     bindE (getitem batch ''pos'') (\<lambda>p. f e p)))"
| "forward ext (ReconstructionLoss n f) model hd_relations ld_relations batch =
     bindE (getitem batch ''data'') (\<lambda>d.
     bindE (getitem batch ''data'') (\<lambda>d'.
     bindE (encode ext model d') (\<lambda>c.
     bindE (decode ext model c) (\<lambda>r. f d r))))"
| "forward ext (CompoundLoss n ls ws) model hd_relations ld_relations batch =
     compound_sum ext ls ws model hd_relations ld_relations batch 0"
| "compound_sum ext [] ws model hd_relations ld_relations batch total_loss = Inr total_loss"
| "compound_sum ext (l # ls) [] model hd_relations ld_relations batch total_loss = Inr total_loss"
| "compound_sum ext (l # ls) (w # ws) model hd_relations ld_relations batch total_loss =
     bindE (forward ext l model hd_relations ld_relations batch) (\<lambda>v.
       compound_sum ext ls ws model hd_relations ld_relations batch (total_loss + w * v))"

section \<open>Module \<^verbatim>\<open>paradime.dr\<close>: arrays and tensors\<close>

text \<open>
  The content of a numeric array: a number (a zero-dimensional array) or the list of its
  slices along the first dimension.  Numbers are idealised as reals.  A tensor-like value
  is a numpy array or a tensor on a device.
\<close>

datatype array = Scalar real | Dim "array list"

datatype device = CPU | CUDA

datatype TensorLike = ndarray array | Tensor device array

fun content :: "TensorLike \<Rightarrow> array" where
  "content (ndarray a) = a"
| "content (Tensor d a) = a"

text \<open>\<^verbatim>\<open>len(x)\<close> of an array or tensor: \<^verbatim>\<open>TypeError\<close> for a zero-dimensional one.\<close>

fun array_len :: "array \<Rightarrow> exn + nat" where
  "array_len (Scalar x) = Inl TypeError"
| "array_len (Dim xs) = Inr (length xs)"

text \<open>
  The shape of an array; \<open>None\<close> for a nested list that is not rectangular, which no
  array holds.
\<close>

fun shape :: "array \<Rightarrow> nat list option" where
  "shape (Scalar x) = Some []"
| "shape (Dim []) = Some [0]"
| "shape (Dim (y # ys)) =
     (case shape y of
        None \<Rightarrow> None
      | Some sh \<Rightarrow>
          if list_all (\<lambda>z. shape z = Some sh) ys then Some (Suc (length ys) # sh) else None)"

fun flatten :: "array \<Rightarrow> real list" where
  "flatten (Scalar x) = [x]"
| "flatten (Dim xs) = concat (map flatten xs)"

fun rows :: "array \<Rightarrow> array list" where
  "rows (Scalar x) = []"
| "rows (Dim xs) = xs"

text \<open>
  Modelled from the spec: \<^verbatim>\<open>utils.convert.to_torch\<close> is not among the source files.  The
  spec has it convert a raw numeric array or an already constructed tensor into the tensor
  representation, passing a tensor through unchanged.
\<close>

fun to_torch :: "TensorLike \<Rightarrow> TensorLike" where
  "to_torch (ndarray a) = Tensor CPU a"
| "to_torch (Tensor d a) = Tensor d a"

text \<open>\<^verbatim>\<open>x.cuda()\<close> and \<^verbatim>\<open>x.cpu()\<close>; a numpy array has neither method.\<close>

fun cuda :: "TensorLike \<Rightarrow> exn + TensorLike" where
  "cuda (ndarray a) = Inl AttributeError"
| "cuda (Tensor d a) = Inr (Tensor CUDA a)"


definition arange :: "nat \<Rightarrow> TensorLike" where
  "arange n = Tensor CPU (Dim (map (\<lambda>i. Scalar (real i)) [0..<n]))"

text \<open>
  \<^verbatim>\<open>torch.concat\<close> along the first dimension: the list must not be empty, no tensor may be
  zero-dimensional, and all shapes must agree beyond the first dimension.
\<close>

definition concat0 :: "array list \<Rightarrow> exn + array" where
  "concat0 ts =
     (case ts of
        [] \<Rightarrow> Inl RuntimeError
      | t # _ \<Rightarrow>
          (case shape t of
             Some (n # sh) \<Rightarrow>
               if list_all (\<lambda>u. case shape u of Some (m # sh') \<Rightarrow> sh' = sh | _ \<Rightarrow> False) ts
               then Inr (Dim (concat (map rows ts)))
               else Inl RuntimeError
           | _ \<Rightarrow> Inl RuntimeError))"

text \<open>
  \<^verbatim>\<open>torch.concat(..., dim=1)\<close>: every tensor has at least two dimensions, and all shapes
  agree except in the second one.  Slice \<open>j\<close> of the result joins the slices \<open>j\<close> of the
  arguments.
\<close>

definition concat1 :: "array list \<Rightarrow> exn + array" where
  "concat1 ts =
     (case ts of
        [] \<Rightarrow> Inl RuntimeError
      | t # _ \<Rightarrow>
          (case shape t of
             Some (n # m # sh) \<Rightarrow>
               if list_all (\<lambda>u. case shape u of Some (n' # m' # sh') \<Rightarrow> n' = n \<and> sh' = sh
                                 | _ \<Rightarrow> False) ts
               then Inr (Dim (map (\<lambda>j. Dim (concat (map (\<lambda>u. rows (rows u ! j)) ts))) [0..<n]))
               else Inl RuntimeError
           | _ \<Rightarrow> Inl RuntimeError))"

text \<open>\<^verbatim>\<open>t[ids]\<close> for a tensor of row numbers: the selected slices, in the order of \<open>ids\<close>.\<close>

definition index_rows :: "array \<Rightarrow> nat list \<Rightarrow> exn + array" where
  "index_rows t ids =
     (case t of
        Scalar x \<Rightarrow> Inl IndexError
      | Dim xs \<Rightarrow>
          if list_all (\<lambda>i. i < length xs) ids then Inr (Dim (map (\<lambda>i. xs ! i) ids))
          else Inl IndexError)"

text \<open>
  \<^verbatim>\<open>np.unique(x, return_index=True)\<close>: the distinct values of the flattened array in
  increasing order, and for each the position of its first occurrence.
\<close>

definition unique :: "real list \<Rightarrow> real list" where
  "unique xs = sort (remdups xs)"

fun first_index :: "real list \<Rightarrow> real \<Rightarrow> nat" where
  "first_index [] v = 0"
| "first_index (x # xs) v = (if x = v then 0 else Suc (first_index xs v))"

definition unique_index :: "real list \<Rightarrow> nat list" where
  "unique_index xs = map (first_index xs) (unique xs)"

section \<open>Edge-batch collation\<close>

text \<open>\<^verbatim>\<open>[i[k] for i in raw_batch]\<close>: the first missing key raises \<^verbatim>\<open>KeyError\<close>.\<close>

fun field_values :: "(string, array) dict list \<Rightarrow> string \<Rightarrow> exn + array list" where
  "field_values [] k = Inr []"
| "field_values (i # raw_batch) k =
     bindE (getitem i k) (\<lambda>v. bindE (field_values raw_batch k) (\<lambda>vs. Inr (v # vs)))"

text \<open>
  The body of the loop of \<^verbatim>\<open>_collate_edge_batch\<close>: the collated value of key \<open>k\<close>.
\<close>

definition collate_field :: "(string, array) dict list \<Rightarrow> nat list \<Rightarrow> string \<Rightarrow> exn + array" where
  "collate_field raw_batch unique_ids k =
     (if k \<in> set [''row'', ''col'', ''rel''] then
        bindE (field_values raw_batch k) concat0
      else if k = ''from_to_data'' then
        bindE (field_values raw_batch k) concat1
      else
        bindE (field_values raw_batch k) (\<lambda>vs. bindE (concat0 vs) (\<lambda>c. index_rows c unique_ids)))"

text \<open>The loop over the keys of the first item, with the collated batch built so far.\<close>

fun collate_keys ::
  "(string, array) dict list \<Rightarrow> nat list \<Rightarrow> string list \<Rightarrow> (string, array) dict
    \<Rightarrow> exn + (string, array) dict" where
  "collate_keys raw_batch unique_ids [] collated_batch = Inr collated_batch"
| "collate_keys raw_batch unique_ids (k # ks) collated_batch =
     bindE (collate_field raw_batch unique_ids k) (\<lambda>v.
       collate_keys raw_batch unique_ids ks (AList.update k v collated_batch))"

definition collate_edge_batch :: "(string, array) dict list \<Rightarrow> exn + (string, array) dict" where
  "collate_edge_batch raw_batch =
     bindE (field_values raw_batch ''indices'') (\<lambda>vs. bindE (concat0 vs) (\<lambda>c.
       let indices = unique (flatten c);
           unique_ids = unique_index (flatten c);
           collated_batch = [(''indices'', Dim (map Scalar indices))]
       in case raw_batch of
            [] \<Rightarrow> Inl IndexError
          | first # _ \<Rightarrow> collate_keys raw_batch unique_ids (map fst first) collated_batch))"

text \<open>
  The order in which each index first occurs in a sequence: what a deduplication that
  preserves first occurrences returns.
\<close>

fun first_occ :: "real list \<Rightarrow> real list \<Rightarrow> real list" where
  "first_occ seen [] = []"
| "first_occ seen (x # xs) =
     (if x \<in> set seen then first_occ seen xs else x # first_occ (x # seen) xs)"

definition first_occurrences :: "real list \<Rightarrow> real list" where
  "first_occurrences xs = first_occ [] xs"

text \<open>
  What \<^verbatim>\<open>NegSampledEdgeDataset.__getitem__\<close> puts into the fields \<^verbatim>\<open>row\<close>, \<^verbatim>\<open>col\<close> and
  \<^verbatim>\<open>rel\<close> of an item for negative-sampling rate \<open>r\<close>: one-dimensional tensors of \<open>r + 1\<close>
  entries (\<^verbatim>\<open>torch.full((r + 1,), ...)\<close>, \<^verbatim>\<open>torch.randint(n, (r + 1,))\<close>,
  \<^verbatim>\<open>torch.zeros(r + 1)\<close>); its field \<^verbatim>\<open>indices\<close> is one-dimensional as well.
\<close>

definition edge_item :: "nat \<Rightarrow> (string, array) dict \<Rightarrow> bool" where
  "edge_item r item =
     (list_all (\<lambda>k. case map_of item k of Some a \<Rightarrow> shape a = Some [Suc r] | None \<Rightarrow> False)
        [''row'', ''col'', ''rel''] \<and>
      (case map_of item ''indices'' of
         Some a \<Rightarrow> (case shape a of Some [n] \<Rightarrow> True | _ \<Rightarrow> False)
       | None \<Rightarrow> False))"

text \<open>All values of the fields \<^verbatim>\<open>indices\<close> of a batch, item after item.\<close>

definition all_indices :: "(string, array) dict list \<Rightarrow> real list" where
  "all_indices raw_batch =
     concat (map (\<lambda>item. case map_of item ''indices'' of Some a \<Rightarrow> flatten a | None \<Rightarrow> [])
       raw_batch)"

section \<open>Datasets and derived dataset entries\<close>

text \<open>
  Python values that the modules store or pass on without looking into them (keyword
  options, values of a spec).
\<close>

datatype pyobj = PyNone | PyInt int | PyFloat real | PyStr string

text \<open>
  A derived entry holds the function that computes it, the flag \<^verbatim>\<open>requires_relations\<close>,
  its \<^verbatim>\<open>(type, key)\<close> tuples and its keyword options.  The function receives the selected
  dataset tensors and relation data (of an arbitrary type \<open>'rd\<close>) and the keyword options; it
  returns any Python value: an array or tensor, a derived entry, or something else.
\<close>

datatype 'rd source = DataArg TensorLike | RelArg 'rd

datatype 'rd entry =
  DerivedDatasetEntry
    (func: "'rd source list \<Rightarrow> (string, pyobj) dict \<Rightarrow> exn + 'rd pyvalue")
    (requires_relations: bool)
    (type_key_tuples: "(string \<times> string) list")
    (kwargs: "(string, pyobj) dict")
and 'rd pyvalue = Array TensorLike | Derived "'rd entry" | Other pyobj



record 'rd Dataset =
  data :: "(string, TensorLike) dict"
  derived_entries :: "(string, 'rd entry) dict"

text \<open>What \<^verbatim>\<open>Dataset(...)\<close> may receive: an array or tensor, a dict, or anything else.\<close>

datatype 'rd Data =
    ArrayData TensorLike
  | DictData "(string, 'rd pyvalue) dict"
  | OtherData pyobj

text \<open>\<^verbatim>\<open>len(v)\<close> of a value of a dataset dict.\<close>

fun py_len :: "'rd pyvalue \<Rightarrow> exn + nat" where
  "py_len (Array a) = array_len (content a)"
| "py_len (Derived e) = Inl TypeError"
| "py_len (Other (PyStr s)) = Inr (length s)"
| "py_len (Other v) = Inl TypeError"

text \<open>
  The loop of \<^verbatim>\<open>Dataset.__init__\<close> over the items of the dict \<open>d\<close>, with the dataset built
  so far.
\<close>

fun Dataset_items ::
  "(string, 'rd pyvalue) dict \<Rightarrow> (string, 'rd pyvalue) dict \<Rightarrow> 'rd Dataset \<Rightarrow> exn + 'rd Dataset"
where
  "Dataset_items d [] self = Inr self"
| "Dataset_items d ((k, val) # rest) self =
     (case val of
        Derived e \<Rightarrow>
          Dataset_items d rest (self\<lparr>derived_entries := AList.update k e (derived_entries self)\<rparr>)
      | Other v \<Rightarrow> Inl ValueError
      | Array a \<Rightarrow>
          bindE (array_len (content a)) (\<lambda>n.
          bindE (bindE (getitem d ''data'') py_len) (\<lambda>m.
            if n \<noteq> m then Inl ValueError
            else Dataset_items d rest (self\<lparr>data := AList.update k (to_torch a) (data self)\<rparr>))))"

text \<open>\<^verbatim>\<open>Dataset.__len__\<close>.\<close>

definition Dataset_len :: "'rd Dataset \<Rightarrow> exn + nat" where
  "Dataset_len self = bindE (getitem (data self) ''data'') (\<lambda>t. array_len (content t))"

definition Dataset_of_dict :: "(string, 'rd pyvalue) dict \<Rightarrow> exn + 'rd Dataset" where
  "Dataset_of_dict d =
     bindE (Dataset_items d d \<lparr>data = [], derived_entries = []\<rparr>) (\<lambda>self.
       if contains (data self) ''indices'' then Inr self
       else bindE (Dataset_len self) (\<lambda>n.
              Inr (self\<lparr>data := AList.update ''indices'' (arange n) (data self)\<rparr>)))"

text \<open>\<^verbatim>\<open>Dataset.__init__\<close>.\<close>

definition Dataset_init :: "'rd Data \<Rightarrow> exn + 'rd Dataset" where
  "Dataset_init d =
     (case d of
        ArrayData a \<Rightarrow> Dataset_of_dict [(''data'', Array a)]
      | OtherData v \<Rightarrow> Inl ValueError
      | DictData dd \<Rightarrow>
          if \<not> contains dd ''data'' then Inl AttributeError else Dataset_of_dict dd)"

section \<open>Building a dataset from a spec\<close>

text \<open>
  The two functions of the registry of \<^verbatim>\<open>_dataset_from_spec\<close> wrap a PCA and a spectral
  embedding of an external library, which are parameters here.  Each takes one positional
  argument and reads the option \<^verbatim>\<open>out_dim\<close>.
\<close>

record 'rd sklearn =
  PCA_fit_transform :: "pyobj \<Rightarrow> 'rd source \<Rightarrow> exn + array"
  SpectralEmbedding_fit_transform :: "pyobj \<Rightarrow> 'rd source \<Rightarrow> exn + array"

definition pca ::
  "'rd sklearn \<Rightarrow> 'rd source list \<Rightarrow> (string, pyobj) dict \<Rightarrow> exn + 'rd pyvalue" where
  "pca sk args options =
     (case args of
        [x] \<Rightarrow> bindE (getitem options ''out_dim'') (\<lambda>n.
                 bindE (PCA_fit_transform sk n x) (\<lambda>a. Inr (Array (Tensor CPU a))))
      | _ \<Rightarrow> Inl TypeError)"




text \<open>\<^verbatim>\<open>entry[key]\<close> for such a field.\<close>

definition subscript :: "'a option \<Rightarrow> exn + 'a" where
  "subscript v = (case v of None \<Rightarrow> Inl KeyError | Some x \<Rightarrow> Inr x)"




section \<open>Training phases\<close>

text \<open>
  What is passed as the optimizer of a phase: a subclass of \<^verbatim>\<open>torch.optim.Optimizer\<close>, another
  class, or a value that is no class (for which \<^verbatim>\<open>issubclass\<close> raises \<^verbatim>\<open>TypeError\<close>).
\<close>

datatype pytype = OptimizerClass string | OtherClass string | NotAClass pyobj

text \<open>
  The attributes of a \<^verbatim>\<open>TrainingPhase\<close>.  The attribute \<^verbatim>\<open>loss_weights\<close> is \<open>None\<close> while no
  assignment has created it; reading it then raises \<^verbatim>\<open>AttributeError\<close>.  \<open>tp_loss\<close> is the
  attribute \<^verbatim>\<open>_loss\<close>.  The type \<open>'L\<close> is that of the loss objects.
\<close>

record 'L TrainingPhase =
  tp_name :: "string option"
  epochs :: int
  batch_size :: int
  batches_per_epoch :: int
  sampling :: string
  edge_rel_key :: string
  neg_sampling_rate :: int
  loss_keys :: "string list"
  loss_weights :: "real list option"
  tp_loss :: "'L option"
  optimizer :: pytype
  learning_rate :: real
  report_interval :: int
  tp_kwargs :: "(string, pyobj) dict"

text \<open>
  The keyword arguments of a call of \<^verbatim>\<open>TrainingPhase(...)\<close> or of
  \<^verbatim>\<open>add_training_phase(...)\<close>: \<open>None\<close> for a parameter that the call leaves out, and the
  further keyword arguments, which \<^verbatim>\<open>**kwargs\<close> collects.
\<close>

record keyword_args =
  kw_name :: "string option"
  kw_epochs :: "int option"
  kw_batch_size :: "int option"
  kw_batches_per_epoch :: "int option"
  kw_sampling :: "string option"
  kw_edge_rel_key :: "string option"
  kw_neg_sampling_rate :: "int option"
  kw_loss_keys :: "string list option"
  kw_loss_weights :: "real list option"
  kw_optimizer :: "pytype option"
  kw_learning_rate :: "real option"
  kw_report_interval :: "int option"
  kw_kwargs :: "(string, pyobj) dict"

definition no_keywords :: keyword_args where
  "no_keywords =
     \<lparr> kw_name = None, kw_epochs = None, kw_batch_size = None, kw_batches_per_epoch = None,
       kw_sampling = None, kw_edge_rel_key = None, kw_neg_sampling_rate = None,
       kw_loss_keys = None, kw_loss_weights = None, kw_optimizer = None,
       kw_learning_rate = None, kw_report_interval = None, kw_kwargs = [] \<rparr>"

definition or_default :: "'a \<Rightarrow> 'a option \<Rightarrow> 'a" where
  "or_default d v = (case v of None \<Rightarrow> d | Some x \<Rightarrow> x)"

text \<open>
  \<^verbatim>\<open>TrainingPhase.__init__\<close>, with its checks in the order of the source.  Only the branch
  \<^verbatim>\<open>if loss_weights is None\<close> assigns the attribute \<^verbatim>\<open>loss_weights\<close>; there is no other branch.
\<close>

definition TrainingPhase_init :: "keyword_args \<Rightarrow> exn + 'L TrainingPhase" where
  "TrainingPhase_init kw =
     (let smp = or_default ''standard'' (kw_sampling kw) in
      if smp \<notin> set [''standard'', ''negative_edge''] then Inl ValueError
      else
        let lk = or_default [''loss''] (kw_loss_keys kw) in
        if lk = [] then Inl ValueError
        else
          let lw = (case kw_loss_weights kw of
                      None \<Rightarrow> Some (replicate (length lk) 1)
                    | Some w \<Rightarrow> None);
              self = \<lparr> tp_name = kw_name kw,
                       epochs = or_default 5 (kw_epochs kw),
                       batch_size = or_default 50 (kw_batch_size kw),
                       batches_per_epoch = or_default (- 1) (kw_batches_per_epoch kw),
                       sampling = smp,
                       edge_rel_key = or_default ''rel'' (kw_edge_rel_key kw),
                       neg_sampling_rate = or_default 5 (kw_neg_sampling_rate kw),
                       loss_keys = lk,
                       loss_weights = lw,
                       tp_loss = None,
                       optimizer = or_default (OptimizerClass ''Adam'') (kw_optimizer kw),
                       learning_rate = or_default (1 / 100) (kw_learning_rate kw),
                       report_interval = or_default 5 (kw_report_interval kw),
                       tp_kwargs = kw_kwargs kw \<rparr>
          in case optimizer self of
               OptimizerClass c \<Rightarrow> Inr self
             | OtherClass c \<Rightarrow> Inl ValueError
             | NotAClass v \<Rightarrow> Inl TypeError)"

text \<open>The property \<^verbatim>\<open>loss\<close> and a read of the attribute \<^verbatim>\<open>loss_weights\<close>.\<close>

definition TrainingPhase_loss :: "'L TrainingPhase \<Rightarrow> exn + 'L" where
  "TrainingPhase_loss self =
     (case tp_loss self of None \<Rightarrow> Inl LossNotDeterminedError | Some l \<Rightarrow> Inr l)"

definition getattr_loss_weights :: "'L TrainingPhase \<Rightarrow> exn + real list" where
  "getattr_loss_weights self =
     (case loss_weights self of None \<Rightarrow> Inl AttributeError | Some w \<Rightarrow> Inr w)"

text \<open>
  The loop of \<^verbatim>\<open>_determine_loss\<close> over several loss keys, with the list built so far.
  \<^verbatim>\<open>copy.deepcopy\<close>, a function of the standard library, is the parameter \<open>deepcopy\<close>.
\<close>

fun collect_losses ::
  "('L \<Rightarrow> 'L) \<Rightarrow> string list \<Rightarrow> (string, 'L) dict \<Rightarrow> 'L list \<Rightarrow> exn + 'L list" where
  "collect_losses deepcopy [] loss_dict acc = Inr acc"
| "collect_losses deepcopy (lk # lks) loss_dict acc =
     (if \<not> contains loss_dict lk then Inl KeyError
      else bindE (getitem loss_dict lk) (\<lambda>l.
             collect_losses deepcopy lks loss_dict (acc @ [deepcopy l])))"

text \<open>
  \<^verbatim>\<open>TrainingPhase._determine_loss\<close>.  The arguments of \<^verbatim>\<open>CompoundLoss(...)\<close> are evaluated
  before the call, so a missing attribute \<^verbatim>\<open>loss_weights\<close> raises before the constructor
  compares the lengths.  \<open>uid\<close> is the UUID that the constructor may draw.
\<close>

definition determine_loss ::
  "('t loss \<Rightarrow> 't loss) \<Rightarrow> 't loss TrainingPhase \<Rightarrow> (string, 't loss) dict \<Rightarrow> string
    \<Rightarrow> exn + 't loss TrainingPhase" where
  "determine_loss deepcopy self loss_dict uid =
     (if length (loss_keys self) = 1 then
        let lk = loss_keys self ! 0 in
        if \<not> contains loss_dict lk then Inl KeyError
        else bindE (getitem loss_dict lk) (\<lambda>l. Inr (self\<lparr>tp_loss := Some (deepcopy l)\<rparr>))
      else
        bindE (collect_losses deepcopy (loss_keys self) loss_dict []) (\<lambda>ls.
        bindE (getattr_loss_weights self) (\<lambda>w.
        bindE (CompoundLoss_init ls (Some w) (tp_name self) uid) (\<lambda>c.
          Inr (self\<lparr>tp_loss := Some c\<rparr>)))))"

section \<open>Building training phases from a spec\<close>

text \<open>
  An entry of the spec of the training phases, with its nested dicts; a field is \<open>None\<close> when
  the dict lacks the key.  The value under \<^verbatim>\<open>"weights"\<close> may itself be \<^verbatim>\<open>None\<close>.  The two dicts
  of options are keyword arguments.
\<close>

record sampling_spec =
  samplingtype :: "string option"
  sampling_options :: "keyword_args option"

record loss_spec =
  components :: "string list option"
  weights :: "real list option option"

record optimizer_spec =
  optimtype :: "pytype option"
  optimizer_options :: "keyword_args option"

record phase_spec_entry =
  spec_epochs :: "int option"
  spec_sampling :: "sampling_spec option"
  spec_loss :: "loss_spec option"
  spec_optimizer :: "optimizer_spec option"

text \<open>The names that a dict of keyword arguments holds.\<close>

definition keyword_names :: "keyword_args \<Rightarrow> string list" where
  "keyword_names kw =
     (if kw_name kw = None then [] else [''name'']) @
     (if kw_epochs kw = None then [] else [''epochs'']) @
     (if kw_batch_size kw = None then [] else [''batch_size'']) @
     (if kw_batches_per_epoch kw = None then [] else [''batches_per_epoch'']) @
     (if kw_sampling kw = None then [] else [''sampling'']) @
     (if kw_edge_rel_key kw = None then [] else [''edge_rel_key'']) @
     (if kw_neg_sampling_rate kw = None then [] else [''neg_sampling_rate'']) @
     (if kw_loss_keys kw = None then [] else [''loss_keys'']) @
     (if kw_loss_weights kw = None then [] else [''loss_weights'']) @
     (if kw_optimizer kw = None then [] else [''optimizer'']) @
     (if kw_learning_rate kw = None then [] else [''learning_rate'']) @
     (if kw_report_interval kw = None then [] else [''report_interval'']) @
     map fst (kw_kwargs kw)"

definition first_some :: "'a option \<Rightarrow> 'a option \<Rightarrow> 'a option" where
  "first_some x y = (case x of None \<Rightarrow> y | Some v \<Rightarrow> Some v)"

text \<open>The union of two dicts of keyword arguments that name no keyword twice.\<close>

definition merge_keywords :: "keyword_args \<Rightarrow> keyword_args \<Rightarrow> keyword_args" where
  "merge_keywords a b =
     \<lparr> kw_name = first_some (kw_name a) (kw_name b),
       kw_epochs = first_some (kw_epochs a) (kw_epochs b),
       kw_batch_size = first_some (kw_batch_size a) (kw_batch_size b),
       kw_batches_per_epoch = first_some (kw_batches_per_epoch a) (kw_batches_per_epoch b),
       kw_sampling = first_some (kw_sampling a) (kw_sampling b),
       kw_edge_rel_key = first_some (kw_edge_rel_key a) (kw_edge_rel_key b),
       kw_neg_sampling_rate = first_some (kw_neg_sampling_rate a) (kw_neg_sampling_rate b),
       kw_loss_keys = first_some (kw_loss_keys a) (kw_loss_keys b),
       kw_loss_weights = first_some (kw_loss_weights a) (kw_loss_weights b),
       kw_optimizer = first_some (kw_optimizer a) (kw_optimizer b),
       kw_learning_rate = first_some (kw_learning_rate a) (kw_learning_rate b),
       kw_report_interval = first_some (kw_report_interval a) (kw_report_interval b),
       kw_kwargs = kw_kwargs a @ kw_kwargs b \<rparr>"

text \<open>
  The call \<^verbatim>\<open>TrainingPhase(epochs=..., sampling=..., loss_keys=..., loss_weights=...,
  optimizer=..., **sampling options, **optimizer options)\<close> for one entry.  The subscripts are
  evaluated in the order of the source; a keyword given twice raises \<^verbatim>\<open>TypeError\<close>.
\<close>

definition phase_of_entry :: "phase_spec_entry \<Rightarrow> exn + 'L TrainingPhase" where
  "phase_of_entry entry =
     bindE (subscript (spec_epochs entry)) (\<lambda>ep.
     bindE (subscript (spec_sampling entry)) (\<lambda>smp.
     bindE (subscript (samplingtype smp)) (\<lambda>st.
     bindE (subscript (spec_loss entry)) (\<lambda>lo.
     bindE (subscript (components lo)) (\<lambda>comps.
     bindE (subscript (weights lo)) (\<lambda>w.
     bindE (subscript (spec_optimizer entry)) (\<lambda>opt.
     bindE (subscript (optimtype opt)) (\<lambda>ot.
     bindE (subscript (sampling_options smp)) (\<lambda>so.
     bindE (subscript (optimizer_options opt)) (\<lambda>oo.
       if \<not> distinct ([''epochs'', ''sampling'', ''loss_keys'', ''loss_weights'', ''optimizer'']
                        @ keyword_names so @ keyword_names oo)
       then Inl TypeError
       else TrainingPhase_init
              ((merge_keywords so oo)
                 \<lparr> kw_epochs := Some ep,
                   kw_sampling := Some (if st = ''edge'' then ''negative_edge'' else ''standard''),
                   kw_loss_keys := Some comps,
                   kw_loss_weights := w,
                   kw_optimizer := Some ot \<rparr>)))))))))))"

text \<open>The loop of \<^verbatim>\<open>_training_phases_from_spec\<close>, with the list built so far.\<close>

fun training_phases_loop ::
  "phase_spec_entry list \<Rightarrow> 'L TrainingPhase list \<Rightarrow> exn + 'L TrainingPhase list" where
  "training_phases_loop [] training_phases = Inr training_phases"
| "training_phases_loop (entry # spec) training_phases =
     bindE (phase_of_entry entry) (\<lambda>tp. training_phases_loop spec (training_phases @ [tp]))"

definition training_phases_from_spec :: "phase_spec_entry list \<Rightarrow> exn + 'L TrainingPhase list" where
  "training_phases_from_spec spec = training_phases_loop spec []"

section \<open>The class \<^verbatim>\<open>ParametricDR\<close>\<close>

text \<open>
  The model: its learnable parameters (of an arbitrary type \<open>'p\<close>), the flag that
  \<^verbatim>\<open>model.train()\<close> and \<^verbatim>\<open>model.eval()\<close> switch, and its attributes by name.  A method of the
  model computes from the current parameters.
\<close>

datatype 'p attr = Callable "'p \<Rightarrow> TensorLike \<Rightarrow> exn + TensorLike" | NonCallable pyobj

record 'p Model =
  parameters :: 'p
  training :: bool
  attributes :: "(string, 'p attr) dict"

text \<open>
  What \<^verbatim>\<open>compute_global_relations\<close> uses of a relations object, whose class is defined in
  another module: its attribute \<^verbatim>\<open>data_key\<close> and its method \<^verbatim>\<open>compute_relations\<close>, a parameter.
\<close>

record 'rd Relations =
  data_key :: string
  relations_compute :: "TensorLike \<Rightarrow> exn + 'rd"

text \<open>
  The attributes of a \<^verbatim>\<open>ParametricDR\<close>; \<open>dataset_attr\<close> is the attribute \<^verbatim>\<open>_dataset\<close>.  The last
  field is not an attribute: it records, in order, the keys of the global relations whose
  \<^verbatim>\<open>compute_relations\<close> has been called, so that the number of computations can be stated.
\<close>

record ('p, 'rd, 'L) ParametricDR =
  verbose :: bool
  dataset_attr :: "'rd Dataset option"
  dataset_registered :: bool
  model :: "'p Model"
  global_relations :: "(string, 'rd Relations) dict"
  global_relation_data :: "(string, 'rd) dict"
  global_relations_computed :: bool
  batch_relations :: "(string, 'rd Relations) dict"
  losses :: "(string, 'L) dict"
  training_defaults :: "'L TrainingPhase"
  training_phases :: "'L TrainingPhase list"
  use_cuda :: bool
  trained :: bool
  computed_log :: "string list"

text \<open>
  A method that updates the object either returns, with the updated object, or raises, and
  the object then keeps the updates made before the exception.
\<close>

type_synonym 's outcome = "(exn \<times> 's) + 's"


text \<open>The property \<^verbatim>\<open>dataset\<close>.\<close>

definition dataset_property :: "('p, 'rd, 'L) ParametricDR \<Rightarrow> exn + 'rd Dataset" where
  "dataset_property self =
     (case dataset_attr self of
        Some ds \<Rightarrow> Inr ds
      | None \<Rightarrow> Inl NoDatasetRegisteredError)"

text \<open>\<^verbatim>\<open>register_dataset\<close>, for a dataset object or for raw data.\<close>

definition register_dataset ::
  "('p, 'rd, 'L) ParametricDR \<Rightarrow> 'rd Dataset + 'rd Data \<Rightarrow> ('p, 'rd, 'L) ParametricDR outcome" where
  "register_dataset self d =
     (case d of
        Inl ds \<Rightarrow> Inr (self\<lparr>dataset_attr := Some ds, dataset_registered := True\<rparr>)
      | Inr raw \<Rightarrow>
          (case Dataset_init raw of
             Inl e \<Rightarrow> Inl (e, self)
           | Inr ds \<Rightarrow> Inr (self\<lparr>dataset_attr := Some ds, dataset_registered := True\<rparr>)))"

text \<open>
  The loop of \<^verbatim>\<open>add_to_dataset\<close> over the items of its argument.  The log messages of the
  verbose mode change nothing and are left out, here and below.
\<close>

fun add_items ::
  "(string, 'rd pyvalue) dict \<Rightarrow> ('p, 'rd, 'L) ParametricDR \<Rightarrow> ('p, 'rd, 'L) ParametricDR outcome"
where
  "add_items [] self = Inr self"
| "add_items ((k, val) # rest) self =
     (case dataset_property self of
        Inl e \<Rightarrow> Inl (e, self)
      | Inr ds \<Rightarrow>
          (case val of
             Derived e \<Rightarrow>
               add_items rest
                 (self\<lparr>dataset_attr :=
                    Some (ds\<lparr>derived_entries := AList.update k e (derived_entries ds)\<rparr>)\<rparr>)
           | Array a \<Rightarrow>
               add_items rest
                 (self\<lparr>dataset_attr := Some (ds\<lparr>data := AList.update k (to_torch a) (data ds)\<rparr>)\<rparr>)
           | Other v \<Rightarrow> Inl (ValueError, self)))"

definition add_to_dataset ::
  "('p, 'rd, 'L) ParametricDR \<Rightarrow> (string, 'rd pyvalue) dict \<Rightarrow> ('p, 'rd, 'L) ParametricDR outcome"
where
  "add_to_dataset self d =
     (if \<not> dataset_registered self then Inl (NoDatasetRegisteredError, self)
      else add_items d self)"

subsection \<open>Derived data\<close>

text \<open>\<^verbatim>\<open>[selector[i][j] for i, j in entry.type_key_tuples]\<close>.\<close>

fun select_args ::
  "(string, TensorLike) dict \<Rightarrow> (string, 'rd) dict \<Rightarrow> (string \<times> string) list
    \<Rightarrow> exn + 'rd source list" where
  "select_args ddata rdata [] = Inr []"
| "select_args ddata rdata ((i, j) # rest) =
     bindE (if i = ''data'' then bindE (getitem ddata j) (\<lambda>x. Inr (DataArg x))
            else if i = ''rel'' then bindE (getitem rdata j) (\<lambda>x. Inr (RelArg x))
            else Inl KeyError) (\<lambda>a.
     bindE (select_args ddata rdata rest) (\<lambda>as. Inr (a # as)))"

text \<open>
  \<^verbatim>\<open>options = entry.kwargs; if "out_dim" not in options: options["out_dim"] = 2\<close>: the dict of
  options of the entry itself is updated.
\<close>

definition with_out_dim :: "'rd entry \<Rightarrow> 'rd entry" where
  "with_out_dim e =
     (if contains (kwargs e) ''out_dim'' then e
      else DerivedDatasetEntry (func e) (requires_relations e) (type_key_tuples e)
             (AList.update ''out_dim'' (PyInt 2) (kwargs e)))"

text \<open>
  \<^verbatim>\<open>compute_derived_data\<close> iterates over the items of the dict that the attribute
  \<^verbatim>\<open>_derived_entries\<close> refers to when the loop starts.  The assignment
  \<^verbatim>\<open>self.dataset._derived_entries = {}\<close> binds the attribute to a new, empty dict; it does not
  change the dict under iteration, and no step of the body adds a key to that dict or
  removes one.  So the loop runs over the items found at its start, and the flag \<open>attached\<close>
  tells whether the attribute still refers to the dict under iteration: an update of an
  entry of that dict is then seen through the attribute.
\<close>

definition store_entry ::
  "('p, 'rd, 'L) ParametricDR \<Rightarrow> bool \<Rightarrow> string \<Rightarrow> 'rd entry \<Rightarrow> ('p, 'rd, 'L) ParametricDR" where
  "store_entry self attached k e =
     (case dataset_attr self of
        None \<Rightarrow> self
      | Some ds \<Rightarrow>
          if attached
          then self\<lparr>dataset_attr :=
                 Some (ds\<lparr>derived_entries := AList.update k e (derived_entries ds)\<rparr>)\<rparr>
          else self)"

text \<open>
  The body of the loop for the item \<open>(k, entry)\<close>, up to the call of \<^verbatim>\<open>add_to_dataset\<close>: the
  branch that raises, or the computation of the entry.
\<close>

definition derive_entry ::
  "('p, 'rd, 'L) ParametricDR \<Rightarrow> bool \<Rightarrow> string \<Rightarrow> 'rd entry \<Rightarrow> ('p, 'rd, 'L) ParametricDR outcome"
where
  "derive_entry self attached k entry =
     (if requires_relations entry \<and> \<not> global_relations_computed self
      then Inl (RelationsNotComputedError, self)
      else
        let entry' = with_out_dim entry;
            self1 = store_entry self attached k entry'
        in case bindE (dataset_property self1) (\<lambda>ds.
                  bindE (select_args (data ds) (global_relation_data self1)
                           (type_key_tuples entry')) (\<lambda>args.
                    func entry' args (kwargs entry'))) of
             Inl e \<Rightarrow> Inl (e, self1)
           | Inr v \<Rightarrow> add_to_dataset self1 [(k, v)])"

text \<open>
  \<^verbatim>\<open>if not keep_definitions: self.dataset._derived_entries = {}\<close>, the last statement of the
  body of the loop.
\<close>

definition clear_definitions :: "('p, 'rd, 'L) ParametricDR \<Rightarrow> ('p, 'rd, 'L) ParametricDR outcome" where
  "clear_definitions self =
     (case dataset_attr self of
        None \<Rightarrow> Inl (NoDatasetRegisteredError, self)
      | Some ds \<Rightarrow> Inr (self\<lparr>dataset_attr := Some (ds\<lparr>derived_entries := []\<rparr>)\<rparr>))"

fun derived_loop ::
  "bool \<Rightarrow> (string, 'rd entry) dict \<Rightarrow> ('p, 'rd, 'L) ParametricDR \<Rightarrow> bool
    \<Rightarrow> ('p, 'rd, 'L) ParametricDR outcome" where
  "derived_loop keep_definitions [] self attached = Inr self"
| "derived_loop keep_definitions ((k, entry) # rest) self attached =
     (case derive_entry self attached k entry of
        Inl x \<Rightarrow> Inl x
      | Inr self1 \<Rightarrow>
          if keep_definitions then derived_loop keep_definitions rest self1 attached
          else (case clear_definitions self1 of
                  Inl x \<Rightarrow> Inl x
                | Inr self2 \<Rightarrow> derived_loop keep_definitions rest self2 False))"

definition compute_derived_data ::
  "('p, 'rd, 'L) ParametricDR \<Rightarrow> bool \<Rightarrow> ('p, 'rd, 'L) ParametricDR outcome" where
  "compute_derived_data self keep_definitions =
     (if \<not> dataset_registered self then Inl (NoDatasetRegisteredError, self)
      else
        case dataset_property self of
          Inl e \<Rightarrow> Inl (e, self)
        | Inr ds \<Rightarrow> derived_loop keep_definitions (derived_entries ds) self True)"

subsection \<open>Global relations\<close>

text \<open>The loop of \<^verbatim>\<open>compute_global_relations\<close> over the global relations.\<close>

fun relations_loop ::
  "(string, 'rd Relations) dict \<Rightarrow> ('p, 'rd, 'L) ParametricDR \<Rightarrow> ('p, 'rd, 'L) ParametricDR outcome"
where
  "relations_loop [] self = Inr self"
| "relations_loop ((k, rel) # rest) self =
     (case bindE (dataset_property self) (\<lambda>ds. getitem (data ds) (data_key rel)) of
        Inl e \<Rightarrow> Inl (e, self)
      | Inr x \<Rightarrow>
          let self1 = self\<lparr>computed_log := computed_log self @ [k]\<rparr> in
          case relations_compute rel x of
            Inl e \<Rightarrow> Inl (e, self1)
          | Inr rd \<Rightarrow>
              relations_loop rest
                (self1\<lparr>global_relation_data := AList.update k rd (global_relation_data self1)\<rparr>))"

definition compute_global_relations ::
  "('p, 'rd, 'L) ParametricDR \<Rightarrow> bool \<Rightarrow> ('p, 'rd, 'L) ParametricDR outcome" where
  "compute_global_relations self force =
     (if \<not> dataset_registered self then Inl (NoDatasetRegisteredError, self)
      else
        case dataset_property self of
          Inl e \<Rightarrow> Inl (e, self)
        | Inr ds \<Rightarrow>
            (case (if force \<or> \<not> global_relations_computed self
                   then relations_loop (global_relations self) self
                   else Inr self) of
               Inl x \<Rightarrow> Inl x
             | Inr self1 \<Rightarrow> Inr (self1\<lparr>global_relations_computed := True\<rparr>)))"

subsection \<open>Applying the model\<close>

text \<open>\<^verbatim>\<open>_call_model_method_by_name\<close>, \<^verbatim>\<open>apply\<close>, \<^verbatim>\<open>embed\<close> and \<^verbatim>\<open>classify\<close>.\<close>

definition call_model_method_by_name ::
  "('p, 'rd, 'L) ParametricDR \<Rightarrow> string \<Rightarrow> TensorLike \<Rightarrow> exn + TensorLike" where
  "call_model_method_by_name self method_name X =
     bindE (if use_cuda self then cuda (to_torch X) else Inr (to_torch X)) (\<lambda>X'.
       case map_of (attributes (model self)) method_name of
         None \<Rightarrow> Inl AttributeError
       | Some (NonCallable v) \<Rightarrow> Inl ValueError
       | Some (Callable f) \<Rightarrow>
           if trained self then f (parameters (model self)) X'
           else Inl NotTrainedError)"


definition embed_data :: "('p, 'rd, 'L) ParametricDR \<Rightarrow> TensorLike \<Rightarrow> exn + TensorLike" where
  "embed_data self X = call_model_method_by_name self ''embed'' X"

definition classify_data :: "('p, 'rd, 'L) ParametricDR \<Rightarrow> TensorLike \<Rightarrow> exn + TensorLike" where
  "classify_data self X = call_model_method_by_name self ''classify'' X"

subsection \<open>Training\<close>

text \<open>
  What \<^verbatim>\<open>run_training_phase\<close> asks of the loss of a phase, whatever its class: the call with
  five arguments (which returns a scalar and may update the loss), the method
  \<^verbatim>\<open>checkpoint\<close> and the last element of \<^verbatim>\<open>history\<close>.
\<close>

record ('L, 'p, 'rd) loss_protocol =
  loss_call ::
    "'L \<Rightarrow> 'p Model \<Rightarrow> (string, 'rd) dict \<Rightarrow> (string, 'rd Relations) dict
      \<Rightarrow> (string, TensorLike) dict \<Rightarrow> device \<Rightarrow> exn + real \<times> 'L"
  loss_checkpoint :: "'L \<Rightarrow> exn + 'L"
  loss_history_last :: "'L \<Rightarrow> exn + real"

text \<open>
  The tensor library: the constructor of the optimizer of a phase, called with the learning
  rate and the keyword arguments of the phase, may refuse them; \<^verbatim>\<open>loss.backward()\<close> followed
  by \<^verbatim>\<open>optimizer.step()\<close> gives new parameters from the old ones, the loss and the batch; the
  device of the parameters.
\<close>

record 'p torch =
  optimizer_init :: "pytype \<Rightarrow> real \<Rightarrow> (string, pyobj) dict \<Rightarrow> exn + unit"
  backward_step :: "'p \<Rightarrow> real \<Rightarrow> (string, TensorLike) dict \<Rightarrow> exn + 'p"
  model_device :: "'p \<Rightarrow> device"

text \<open>
  \<^verbatim>\<open>_prepare_loader\<close>: its checks, in the order of the source.  The batches that the data
  loader then yields in each epoch are drawn at random; they are the parameter \<open>batches\<close>,
  by the number of the epoch.
\<close>

definition prepare_loader ::
  "('p, 'rd, 'L) ParametricDR \<Rightarrow> 'L TrainingPhase \<Rightarrow> (nat \<Rightarrow> (string, TensorLike) dict list)
    \<Rightarrow> exn + (nat \<Rightarrow> (string, TensorLike) dict list)" where
  "prepare_loader self training_phase batches =
     (if \<not> dataset_registered self then Inl NoDatasetRegisteredError
      else bindE (dataset_property self) (\<lambda>ds.
        if \<not> global_relations_computed self then Inl RelationsNotComputedError
        else if sampling training_phase = ''negative_edge''
                \<and> \<not> contains (global_relation_data self) (edge_rel_key training_phase)
        then Inl KeyError
        else Inr batches))"

text \<open>The loop over the batches of one epoch.\<close>

fun batch_loop ::
  "('L, 'p, 'rd) loss_protocol \<Rightarrow> 'p torch \<Rightarrow> device \<Rightarrow> (string, TensorLike) dict list
    \<Rightarrow> ('p, 'rd, 'L) ParametricDR \<times> 'L TrainingPhase
    \<Rightarrow> (('p, 'rd, 'L) ParametricDR \<times> 'L TrainingPhase) outcome" where
  "batch_loop P T dev [] st = Inr st"
| "batch_loop P T dev (batch # rest) (self, tp) =
     (case bindE (TrainingPhase_loss tp) (\<lambda>l.
             loss_call P l (model self) (global_relation_data self) (batch_relations self)
               batch dev) of
        Inl e \<Rightarrow> Inl (e, (self, tp))
      | Inr (v, l') \<Rightarrow>
          (case backward_step T (parameters (model self)) v batch of
             Inl e \<Rightarrow> Inl (e, (self, tp\<lparr>tp_loss := Some l'\<rparr>))
           | Inr p' \<Rightarrow>
               batch_loop P T dev rest
                 (self\<lparr>model := (model self)\<lparr>parameters := p'\<rparr>\<rparr>, tp\<lparr>tp_loss := Some l'\<rparr>)))"

text \<open>
  The report at the end of an epoch, in verbose mode: \<^verbatim>\<open>epoch % report_interval\<close> raises for
  an interval of zero, and the message reads \<^verbatim>\<open>history[-1]\<close> of the loss.
\<close>

definition report ::
  "('L, 'p, 'rd) loss_protocol \<Rightarrow> bool \<Rightarrow> nat \<Rightarrow> 'L TrainingPhase \<Rightarrow> exn + unit" where
  "report P vb epoch tp =
     (if \<not> vb then Inr ()
      else if report_interval tp = 0 then Inl ZeroDivisionError
      else if int epoch mod report_interval tp = 0
      then bindE (TrainingPhase_loss tp) (\<lambda>l. bindE (loss_history_last P l) (\<lambda>v. Inr ()))
      else Inr ())"

text \<open>
  The loop over the epochs: \<open>n\<close> epochs remain, the next one has the number \<open>epoch\<close>.  The
  flag \<^verbatim>\<open>trained\<close> is set at the end of the body, after the batches, the checkpoint and the
  report of the epoch.
\<close>

fun epoch_loop ::
  "('L, 'p, 'rd) loss_protocol \<Rightarrow> 'p torch \<Rightarrow> device \<Rightarrow> (nat \<Rightarrow> (string, TensorLike) dict list)
    \<Rightarrow> nat \<Rightarrow> nat \<Rightarrow> ('p, 'rd, 'L) ParametricDR \<times> 'L TrainingPhase
    \<Rightarrow> (('p, 'rd, 'L) ParametricDR \<times> 'L TrainingPhase) outcome" where
  "epoch_loop P T dev batches 0 epoch st = Inr st"
| "epoch_loop P T dev batches (Suc n) epoch st =
     (case batch_loop P T dev (batches epoch) st of
        Inl x \<Rightarrow> Inl x
      | Inr (self1, tp1) \<Rightarrow>
          (case bindE (TrainingPhase_loss tp1) (loss_checkpoint P) of
             Inl e \<Rightarrow> Inl (e, (self1, tp1))
           | Inr l' \<Rightarrow>
               let tp2 = tp1\<lparr>tp_loss := Some l'\<rparr> in
               case report P (verbose self1) epoch tp2 of
                 Inl e \<Rightarrow> Inl (e, (self1, tp2))
               | Inr u \<Rightarrow>
                   epoch_loop P T dev batches n (Suc epoch) (self1\<lparr>trained := True\<rparr>, tp2)))"

text \<open>\<^verbatim>\<open>_prepare_optimizer\<close>.\<close>

definition prepare_optimizer :: "'p torch \<Rightarrow> 'L TrainingPhase \<Rightarrow> exn + unit" where
  "prepare_optimizer T training_phase =
     optimizer_init T (optimizer training_phase) (learning_rate training_phase)
       (tp_kwargs training_phase)"

text \<open>\<^verbatim>\<open>run_training_phase\<close>; \<^verbatim>\<open>range(epochs)\<close> is empty for a negative number of epochs.\<close>

definition run_training_phase ::
  "('L, 'p, 'rd) loss_protocol \<Rightarrow> 'p torch \<Rightarrow> (nat \<Rightarrow> (string, TensorLike) dict list)
    \<Rightarrow> ('p, 'rd, 'L) ParametricDR \<Rightarrow> 'L TrainingPhase
    \<Rightarrow> (('p, 'rd, 'L) ParametricDR \<times> 'L TrainingPhase) outcome" where
  "run_training_phase P T batches self training_phase =
     (case bindE (prepare_loader self training_phase batches) (\<lambda>dataloader.
             bindE (prepare_optimizer T training_phase) (\<lambda>u. Inr dataloader)) of
        Inl e \<Rightarrow> Inl (e, (self, training_phase))
      | Inr dataloader \<Rightarrow>
          epoch_loop P T (model_device T (parameters (model self))) dataloader
            (nat (epochs training_phase)) 0 (self, training_phase))"



subsection \<open>The losses of \<^verbatim>\<open>paradime.loss\<close> under training\<close>

text \<open>
  The positional parameters of \<^verbatim>\<open>forward\<close>, after \<^verbatim>\<open>self\<close>, in every class of the module.  A
  loss is called through \<^verbatim>\<open>torch.nn.Module.__call__\<close>, which hands its arguments on to
  \<^verbatim>\<open>forward\<close>; \<open>n\<close> is the number of positional arguments of the call.
\<close>

definition forward_parameters :: "string list" where
  "forward_parameters = [''model'', ''hd_relations'', ''ld_relations'', ''batch'']"

definition Module_call ::
  "('m, 'h, 'l, 't) externals \<Rightarrow> 't loss \<Rightarrow> nat \<Rightarrow> 'm \<Rightarrow> 'h \<Rightarrow> 'l \<Rightarrow> 't batch \<Rightarrow> exn + real" where
  "Module_call ext l n m h r b =
     (if accepts_positional forward_parameters n then forward ext l m h r b
      else Inl TypeError)"

text \<open>
  The classes of the module define \<^verbatim>\<open>__init__\<close> and \<^verbatim>\<open>forward\<close> and nothing else, and their
  instances get the attributes \<^verbatim>\<open>name\<close>, \<^verbatim>\<open>loss_function\<close>, \<^verbatim>\<open>losses\<close> and \<^verbatim>\<open>weights\<close>.  Any other
  attribute is looked up in the base class \<^verbatim>\<open>torch.nn.Module\<close>: what it provides under the
  names \<^verbatim>\<open>checkpoint\<close> and \<^verbatim>\<open>history\<close>, if anything, is a parameter.  A name that is no
  attribute raises \<^verbatim>\<open>AttributeError\<close>.
\<close>

record 't Module_base =
  base_checkpoint :: "('t loss \<Rightarrow> exn + 't loss) option"
  base_history_last :: "('t loss \<Rightarrow> exn + real) option"

definition inherited :: "'f option \<Rightarrow> exn + 'f" where
  "inherited attribute = (case attribute of None \<Rightarrow> Inl AttributeError | Some f \<Rightarrow> Inr f)"

text \<open>
  How the losses of the module answer \<^verbatim>\<open>run_training_phase\<close>: the call passes five positional
  arguments, of which \<^verbatim>\<open>forward\<close> would take the first four; \<^verbatim>\<open>checkpoint\<close> and \<^verbatim>\<open>history\<close> are
  looked up in the base class.
\<close>

definition pdloss_protocol ::
  "('p Model, (string, 'rd) dict, (string, 'rd Relations) dict, TensorLike) externals
    \<Rightarrow> TensorLike Module_base \<Rightarrow> (TensorLike loss, 'p, 'rd) loss_protocol" where
  "pdloss_protocol ext base =
     \<lparr> loss_call = (\<lambda>l m g r b dev. bindE (Module_call ext l 5 m g r b) (\<lambda>v. Inr (v, l))),
       loss_checkpoint = (\<lambda>l. bindE (inherited (base_checkpoint base)) (\<lambda>f. f l)),
       loss_history_last = (\<lambda>l. bindE (inherited (base_history_last base)) (\<lambda>f. f l)) \<rparr>"

section \<open>Building losses from a spec\<close>



text \<open>The four classes that the dict \<^verbatim>\<open>loss_dict\<close> of \<^verbatim>\<open>_losses_from_spec\<close> holds.\<close>

datatype loss_class = RelationLossClass | ClassificationLossClass | ReconstructionLossClass
  | PositionLossClass

definition loss_dict :: "(string, loss_class) dict" where
  "loss_dict =
     [(''relation'', RelationLossClass), (''classification'', ClassificationLossClass),
      (''reconstruction'', ReconstructionLossClass), (''position'', PositionLossClass)]"









section \<open>Concrete inputs\<close>

text \<open>
  Externals over real numbers as tensors, with the unit type for the model and the relation
  objects; the examples below evaluate the definitions on them.
\<close>

definition ex_ext :: "(unit, unit, unit, real) externals" where
  "ex_ext = \<lparr> is_IntTensor = (\<lambda>t. True), sub = (\<lambda>h t. Inr t), compute_relations = (\<lambda>l t. Inr t),
      embed = (\<lambda>m t. Inr t), classify = (\<lambda>m t. Inr t), encode = (\<lambda>m t. Inr t),
      decode = (\<lambda>m t. Inr t), MSELoss = (\<lambda>x y. Inr ((x - y) * (x - y))),
      CrossEntropyLoss = (\<lambda>x y. Inr (x * y)) \<rparr>"


text \<open>
  Two items of a negative-edge dataset with rate 1 over a dataset whose row \<open>i\<close> holds the
  feature \<open>10 * i\<close>: the edges from 5 to 7 and 5, and from 2 to 5 and 7.
\<close>

definition ex_item1 :: "(string, array) dict" where
  "ex_item1 =
     [(''data'', Dim [Dim [Scalar 50], Dim [Scalar 70]]),
      (''indices'', Dim [Scalar 5, Scalar 7]),
      (''row'', Dim [Scalar 5, Scalar 5]),
      (''col'', Dim [Scalar 7, Scalar 5]),
      (''rel'', Dim [Scalar 1, Scalar 0]),
      (''from_to_data'', Dim [Dim [Dim [Scalar 50], Dim [Scalar 50]],
                             Dim [Dim [Scalar 70], Dim [Scalar 50]]])]"

definition ex_item2 :: "(string, array) dict" where
  "ex_item2 =
     [(''data'', Dim [Dim [Scalar 20], Dim [Scalar 50], Dim [Scalar 70]]),
      (''indices'', Dim [Scalar 2, Scalar 5, Scalar 7]),
      (''row'', Dim [Scalar 2, Scalar 2]),
      (''col'', Dim [Scalar 5, Scalar 7]),
      (''rel'', Dim [Scalar 1, Scalar 0]),
      (''from_to_data'', Dim [Dim [Dim [Scalar 20], Dim [Scalar 20]],
                             Dim [Dim [Scalar 50], Dim [Scalar 70]]])]"

definition ex_collated :: "(string, array) dict" where
  "ex_collated =
     [(''indices'', Dim [Scalar 2, Scalar 5, Scalar 7]),
      (''data'', Dim [Dim [Scalar 20], Dim [Scalar 50], Dim [Scalar 70]]),
      (''row'', Dim [Scalar 5, Scalar 5, Scalar 2, Scalar 2]),
      (''col'', Dim [Scalar 7, Scalar 5, Scalar 5, Scalar 7]),
      (''rel'', Dim [Scalar 1, Scalar 0, Scalar 1, Scalar 0]),
      (''from_to_data'',
         Dim [Dim [Dim [Scalar 50], Dim [Scalar 50], Dim [Scalar 20], Dim [Scalar 20]],
              Dim [Dim [Scalar 70], Dim [Scalar 50], Dim [Scalar 50], Dim [Scalar 70]]])]"




text \<open>
  Training phases: one built with the loss keys \<^verbatim>\<open>a\<close>, \<^verbatim>\<open>b\<close> and a name, the phase that
  \<^verbatim>\<open>TrainingPhase()\<close> builds, and the phase built with the loss keys \<^verbatim>\<open>a\<close>, \<^verbatim>\<open>b\<close> and explicit
  weights; a spec entry for the last one.
\<close>

definition ex_phase_ab :: "'L TrainingPhase" where
  "ex_phase_ab =
     \<lparr> tp_name = Some ''phase1'', epochs = 5, batch_size = 50, batches_per_epoch = - 1,
       sampling = ''standard'', edge_rel_key = ''rel'', neg_sampling_rate = 5,
       loss_keys = [''a'', ''b''], loss_weights = Some [1, 1], tp_loss = None,
       optimizer = OptimizerClass ''Adam'', learning_rate = 1 / 100, report_interval = 5,
       tp_kwargs = [] \<rparr>"

definition ex_default_phase :: "'L TrainingPhase" where
  "ex_default_phase =
     \<lparr> tp_name = None, epochs = 5, batch_size = 50, batches_per_epoch = - 1,
       sampling = ''standard'', edge_rel_key = ''rel'', neg_sampling_rate = 5,
       loss_keys = [''loss''], loss_weights = Some [1], tp_loss = None,
       optimizer = OptimizerClass ''Adam'', learning_rate = 1 / 100, report_interval = 5,
       tp_kwargs = [] \<rparr>"

definition ex_phase_weighted :: "'L TrainingPhase" where
  "ex_phase_weighted =
     \<lparr> tp_name = None, epochs = 5, batch_size = 50, batches_per_epoch = - 1,
       sampling = ''standard'', edge_rel_key = ''rel'', neg_sampling_rate = 5,
       loss_keys = [''a'', ''b''], loss_weights = None, tp_loss = None,
       optimizer = OptimizerClass ''Adam'', learning_rate = 1 / 100, report_interval = 5,
       tp_kwargs = [] \<rparr>"

definition ex_phase_entry :: phase_spec_entry where
  "ex_phase_entry =
     \<lparr> spec_epochs = Some 5,
       spec_sampling = Some \<lparr> samplingtype = Some ''item'', sampling_options = Some no_keywords \<rparr>,
       spec_loss = Some \<lparr> components = Some [''a'', ''b''], weights = Some (Some [2, 3]) \<rparr>,
       spec_optimizer = Some \<lparr> optimtype = Some (OptimizerClass ''Adam''),
                               optimizer_options = Some no_keywords \<rparr> \<rparr>"

definition ex_losses_ab :: "(string, real loss) dict" where
  "ex_losses_ab = [(''a'', Loss ''la''), (''b'', Loss ''lb'')]"

text \<open>
  A stand-in for the two embeddings of the external library, which returns the values of
  its input; a model whose parameter counts the steps of the optimizer and whose
  \<^verbatim>\<open>__call__\<close> returns its input.
\<close>

definition ex_sk :: "TensorLike sklearn" where
  "ex_sk = \<lparr> PCA_fit_transform =
               (\<lambda>n x. case x of DataArg t \<Rightarrow> Inr (content t) | RelArg r \<Rightarrow> Inl TypeError),
             SpectralEmbedding_fit_transform =
               (\<lambda>n x. case x of RelArg r \<Rightarrow> Inr (content r) | DataArg t \<Rightarrow> Inl AttributeError) \<rparr>"

definition ex_model :: "nat Model" where
  "ex_model = \<lparr> parameters = 0, training = False,
                attributes = [(''__call__'', Callable (\<lambda>p x. Inr x))] \<rparr>"

text \<open>
  Raw data of two columns and two derived entries, the PCA of each column; the dataset that
  \<^verbatim>\<open>Dataset\<close> builds from them, with the column of indices that it adds; an instance of
  \<^verbatim>\<open>ParametricDR\<close> with the model above and one global relation, before and after
  \<^verbatim>\<open>register_dataset\<close> with the raw data.
\<close>

definition ex_raw :: "TensorLike Data" where
  "ex_raw =
     DictData
       [(''data'', Array (ndarray (Dim [Scalar 1, Scalar 2]))),
        (''labels'', Array (ndarray (Dim [Scalar 3, Scalar 4]))),
        (''a'', Derived (DerivedDatasetEntry (pca ex_sk) False [(''data'', ''data'')] [])),
        (''b'', Derived (DerivedDatasetEntry (pca ex_sk) False [(''data'', ''labels'')] []))]"

definition ex_dataset :: "TensorLike Dataset" where
  "ex_dataset =
     \<lparr> data = [(''data'', Tensor CPU (Dim [Scalar 1, Scalar 2])),
               (''labels'', Tensor CPU (Dim [Scalar 3, Scalar 4])),
               (''indices'', arange 2)],
       derived_entries =
         [(''a'', DerivedDatasetEntry (pca ex_sk) False [(''data'', ''data'')] []),
          (''b'', DerivedDatasetEntry (pca ex_sk) False [(''data'', ''labels'')] [])] \<rparr>"

definition ex_dr_unregistered :: "(nat, TensorLike, 'L) ParametricDR" where
  "ex_dr_unregistered =
     \<lparr> verbose = False, dataset_attr = None, dataset_registered = False,
       model = ex_model,
       global_relations = [(''rel'', \<lparr> data_key = ''data'', relations_compute = (\<lambda>x. Inr x) \<rparr>)],
       global_relation_data = [], global_relations_computed = False, batch_relations = [],
       losses = [], training_defaults = ex_default_phase, training_phases = [],
       use_cuda = False, trained = False, computed_log = [] \<rparr>"

definition ex_dr :: "(nat, TensorLike, 'L) ParametricDR" where
  "ex_dr = ex_dr_unregistered\<lparr>dataset_attr := Some ex_dataset, dataset_registered := True\<rparr>"

text \<open>
  The dataset after the two derived entries have been computed, and the instance after its
  global relation has been computed.
\<close>

definition ex_dataset_derived :: "TensorLike Dataset" where
  "ex_dataset_derived =
     \<lparr> data = [(''data'', Tensor CPU (Dim [Scalar 1, Scalar 2])),
               (''labels'', Tensor CPU (Dim [Scalar 3, Scalar 4])),
               (''indices'', arange 2),
               (''a'', Tensor CPU (Dim [Scalar 1, Scalar 2])),
               (''b'', Tensor CPU (Dim [Scalar 3, Scalar 4]))],
       derived_entries = [] \<rparr>"

definition ex_dr_relations :: "(nat, TensorLike, 'L) ParametricDR" where
  "ex_dr_relations =
     ex_dr\<lparr>global_relation_data := [(''rel'', Tensor CPU (Dim [Scalar 1, Scalar 2]))],
           global_relations_computed := True, computed_log := [''rel'']\<rparr>"

text \<open>
  A loss that keeps the list of its checkpoints and raises on a batch whose data are the
  number 2; an optimizer that counts its steps; a training phase of one epoch bound to this
  loss; an epoch of one batch, and an epoch of two batches the second of which makes the
  loss raise; the instance with the phase added.
\<close>

definition ex_protocol :: "(real list, nat, TensorLike) loss_protocol" where
  "ex_protocol =
     \<lparr> loss_call = (\<lambda>l m g r b dev.
         if map_of b ''data'' = Some (Tensor CPU (Dim [Scalar 2])) then Inl RuntimeError
         else Inr (1, l)),
       loss_checkpoint = (\<lambda>l. Inr (l @ [1])),
       loss_history_last = (\<lambda>l. if l = [] then Inl IndexError else Inr (last l)) \<rparr>"

definition ex_torch :: "nat torch" where
  "ex_torch = \<lparr> optimizer_init = (\<lambda>c lr kw. Inr ()), backward_step = (\<lambda>p v b. Inr (Suc p)),
                model_device = (\<lambda>p. CPU) \<rparr>"

definition ex_phase :: "real list TrainingPhase" where
  "ex_phase = ex_default_phase\<lparr>epochs := 1, tp_loss := Some []\<rparr>"

definition ex_batches_one :: "nat \<Rightarrow> nat \<Rightarrow> (string, TensorLike) dict list" where
  "ex_batches_one i epoch = [[(''data'', Tensor CPU (Dim [Scalar 1]))]]"





text \<open>
  For the losses of \<^verbatim>\<open>paradime.loss\<close> under training: externals over the types that
  \<^verbatim>\<open>run_training_phase\<close> passes, a base class that provides neither \<^verbatim>\<open>checkpoint\<close> nor \<^verbatim>\<open>history\<close>,
  and the default training phase bound to a relation loss.
\<close>

definition ex_dr_ext ::
  "(nat Model, (string, TensorLike) dict, (string, TensorLike Relations) dict, TensorLike) externals"
where
  "ex_dr_ext = \<lparr> is_IntTensor = (\<lambda>t. True), sub = (\<lambda>h t. Inr t),
      compute_relations = (\<lambda>l t. Inr t), embed = (\<lambda>m t. Inr t), classify = (\<lambda>m t. Inr t),
      encode = (\<lambda>m t. Inr t), decode = (\<lambda>m t. Inr t), MSELoss = (\<lambda>x y. Inr 0),
      CrossEntropyLoss = (\<lambda>x y. Inr 0) \<rparr>"

definition ex_base :: "TensorLike Module_base" where
  "ex_base = \<lparr> base_checkpoint = None, base_history_last = None \<rparr>"

definition ex_loss_phase :: "TensorLike loss TrainingPhase" where
  "ex_loss_phase = ex_default_phase\<lparr>tp_loss := Some (RelationLoss ''rel_loss0'' (\<lambda>x y. Inr 0))\<rparr>"


section \<open>Properties of the compound loss\<close>

lemma compound_sum_outputs:
  "length outs = length ls \<Longrightarrow>
   (\<And>i. i < length ls \<Longrightarrow> forward ext (ls ! i) m h l b = Inr (outs ! i)) \<Longrightarrow>
   compound_sum ext ls ws m h l b total_loss =
     Inr (total_loss + sum_list (map (\<lambda>(w, v). w * v) (zip ws outs)))"
proof (induction ls arbitrary: ws outs total_loss)
  case Nil
  then show ?case by simp
next
  case (Cons x ls)
  then obtain v vs where outs: "outs = v # vs"
    by (cases outs) auto
  show ?case
  proof (cases ws)
    case Nil
    then show ?thesis by simp
  next
    case (Cons w ws')
    have hd: "forward ext x m h l b = Inr v"
      using Cons.prems(2) [of 0] outs by simp
    have tl: "\<And>i. i < length ls \<Longrightarrow> forward ext (ls ! i) m h l b = Inr (vs ! i)"
      using Cons.prems(2) outs by fastforce
    have len: "length vs = length ls"
      using Cons.prems(1) outs by simp
    show ?thesis
      using Cons.IH [OF len tl, of ws' "total_loss + w * v"] hd outs Cons
      by (simp add: bindE_def algebra_simps)
  qed
qed

lemma sum_list_zip_nth:
  "length ws = length vs \<Longrightarrow>
   sum_list (map (\<lambda>(w, v). w * v) (zip ws vs)) = (\<Sum>i<length ws. ws ! i * vs ! (i::nat) :: real)"
proof -
  assume len: "length ws = length vs"
  have "sum_list (map (\<lambda>(w, v). w * v) (zip ws vs))
          = (\<Sum>i = 0..<length (zip ws vs). map (\<lambda>(w, v). w * v) (zip ws vs) ! i)"
    by (simp add: sum_list_sum_nth)
  also have "\<dots> = (\<Sum>i = 0..<length ws. ws ! i * vs ! i)"
    using len by (intro sum.cong) auto
  finally show ?thesis
    by (simp add: atLeast0LessThan)
qed

text \<open>
  C3.  A compound loss built from \<open>k\<close> child losses and \<open>k\<close> weights evaluates, on any model,
  relation data, batch relations and batch, to the sum over \<open>i\<close> of the \<open>i\<close>-th weight times
  the output of the \<open>i\<close>-th child on the same arguments (whenever every child returns an
  output); a weight sequence of another length than the losses is refused with
  \<^verbatim>\<open>ValueError\<close>; absent weights are all ones.
\<close>

theorem CompoundLoss_weighted_sum:
  assumes "length ws = length ls"
    and "length outs = length ls"
    and "\<And>i. i < length ls \<Longrightarrow> forward ext (ls ! i) m h l b = Inr (outs ! i)"
  shows "CompoundLoss_init ls (Some ws) name uid
           = Inr (CompoundLoss (Loss_init ''comp_loss'' name uid) ls ws)
       \<and> forward ext (CompoundLoss (Loss_init ''comp_loss'' name uid) ls ws) m h l b
           = Inr (\<Sum>i<length ls. ws ! i * outs ! i)
       \<and> (length ws' \<noteq> length ls \<longrightarrow>
            CompoundLoss_init ls (Some ws') name uid = Inl ValueError)
       \<and> CompoundLoss_init ls None name uid
           = Inr (CompoundLoss (Loss_init ''comp_loss'' name uid) ls (replicate (length ls) 1))"
proof -
  have "forward ext (CompoundLoss (Loss_init ''comp_loss'' name uid) ls ws) m h l b
          = Inr (\<Sum>i<length ls. ws ! i * outs ! i)"
    using compound_sum_outputs [OF assms(2), of ext m h l b ws 0] assms(3)
      sum_list_zip_nth [of ws outs] assms(1) assms(2)
    by simp
  then show ?thesis
    using assms(1) by (simp add: CompoundLoss_init_def)
qed

theorem CompoundLoss_weighted_sum_witness:
  "CompoundLoss_init [ClassificationLoss ''a'' (CrossEntropyLoss ex_ext), PositionLoss ''b'' (MSELoss ex_ext)]
      (Some [2, 3]) (Some ''phase'') ''0''
      = Inr (CompoundLoss ''phase'' [ClassificationLoss ''a'' (CrossEntropyLoss ex_ext), PositionLoss ''b'' (MSELoss ex_ext)] [2, 3])
  \<and> forward ex_ext (CompoundLoss ''phase'' [ClassificationLoss ''a'' (CrossEntropyLoss ex_ext), PositionLoss ''b'' (MSELoss ex_ext)] [2, 3])
       () () () [(''data'', 5), (''labels'', 2), (''pos'', 4)] = Inr 23
  \<and> CompoundLoss_init [ClassificationLoss ''a'' (CrossEntropyLoss ex_ext), PositionLoss ''b'' (MSELoss ex_ext)]
      (Some [1]) (Some ''phase'') ''0'' = Inl ValueError
  \<and> CompoundLoss_init [ClassificationLoss ''a'' (CrossEntropyLoss ex_ext), PositionLoss ''b'' (MSELoss ex_ext)]
      None (Some ''phase'') ''0''
      = Inr (CompoundLoss ''phase'' [ClassificationLoss ''a'' (CrossEntropyLoss ex_ext), PositionLoss ''b'' (MSELoss ex_ext)] [1, 1])"
proof -
  let ?ls = "[ClassificationLoss ''a'' (CrossEntropyLoss ex_ext), PositionLoss ''b'' (MSELoss ex_ext)]"
  let ?b = "[(''data'', 5::real), (''labels'', 2), (''pos'', 4)]"
  have p: "\<And>i. i < length ?ls \<Longrightarrow> forward ex_ext (?ls ! i) () () () ?b = Inr ([10, 1] ! i)"
    by (auto simp: less_Suc_eq ex_ext_def bindE_def getitem_def)
  show ?thesis
    using CompoundLoss_weighted_sum [where ws = "[2, 3]" and ls = ?ls and outs = "[10, 1]"
        and ext = ex_ext and m = "()" and h = "()" and l = "()" and b = ?b and ws' = "[1]"
        and name = "Some ''phase''" and uid = "''0''", OF _ _ p]
    by (simp add: Loss_init_def lessThan_Suc numeral_2_eq_2)
qed

section \<open>Properties of the edge-batch collation\<close>

lemma bindE_Inr_iff: "bindE m f = Inr y \<longleftrightarrow> (\<exists>x. m = Inr x \<and> f x = Inr y)"
  by (cases m) (auto simp: bindE_def)

lemma bindE_InrE:
  assumes "bindE m f = Inr y"
  obtains x where "m = Inr x" and "f x = Inr y"
  using assms by (cases m) (auto simp: bindE_def)

lemma shape_1d:
  assumes "shape a = Some [n]"
  shows "\<exists>xs. a = Dim xs \<and> length xs = n \<and> list_all (\<lambda>x. shape x = Some []) xs"
proof (cases a)
  case (Scalar x) then show ?thesis using assms by simp
next
  case (Dim xs)
  then show ?thesis using assms
    by (cases xs) (auto split: option.splits if_splits)
qed

lemma shape_Dim_scalars: "list_all (\<lambda>x. shape x = Some []) xs \<Longrightarrow> shape (Dim xs) = Some [length xs]"
  by (cases xs) auto

lemma shape_scalar: "shape x = Some [] \<Longrightarrow> \<exists>v. x = Scalar v"
  by (cases x rule: shape.cases) (auto split: option.splits if_splits)

lemma collate_keys_other:
  "collate_keys rb ids ks cb = Inr out \<Longrightarrow> k \<notin> set ks \<Longrightarrow> map_of out k = map_of cb k"
  by (induction ks arbitrary: cb) (auto simp: bindE_Inr_iff update_conv')

lemma collate_keys_lookup:
  "collate_keys rb ids ks cb = Inr out \<Longrightarrow> k \<in> set ks \<Longrightarrow>
   \<exists>v. collate_field rb ids k = Inr v \<and> map_of out k = Some v"
proof (induction ks arbitrary: cb)
  case Nil then show ?case by simp
next
  case (Cons a ks)
  from Cons.prems(1) obtain v where v: "collate_field rb ids a = Inr v"
    and rest: "collate_keys rb ids ks (AList.update a v cb) = Inr out"
    by (auto simp: bindE_Inr_iff)
  show ?case
  proof (cases "k \<in> set ks")
    case True then show ?thesis using Cons.IH [OF rest] by simp
  next
    case False
    then have "k = a" using Cons.prems(2) by simp
    then show ?thesis using collate_keys_other [OF rest False] v by (simp add: update_conv')
  qed
qed

lemma fields_edge:
  "list_all (edge_item r) rb \<Longrightarrow> k \<in> set [''row'', ''col'', ''rel''] \<Longrightarrow>
   \<exists>vs. field_values rb k = Inr vs \<and> length vs = length rb \<and> list_all (\<lambda>a. shape a = Some [Suc r]) vs"
proof (induction rb)
  case Nil then show ?case by simp
next
  case (Cons i rb)
  then obtain vs where vs: "field_values rb k = Inr vs" "length vs = length rb" "list_all (\<lambda>a. shape a = Some [Suc r]) vs"
    by auto
  from Cons.prems obtain a where "map_of i k = Some a" "shape a = Some [Suc r]"
    by (auto simp: edge_item_def split: option.splits)
  then show ?case using vs by (auto simp: getitem_def bindE_def)
qed

lemma concat_rows_1d:
  "list_all (\<lambda>a. shape a = Some [n]) vs \<Longrightarrow>
   length (concat (map rows vs)) = length vs * n \<and> list_all (\<lambda>x. shape x = Some []) (concat (map rows vs))"
proof (induction vs)
  case Nil then show ?case by simp
next
  case (Cons a vs)
  then obtain xs where "a = Dim xs" "length xs = n" "list_all (\<lambda>x. shape x = Some []) xs"
    using shape_1d [of a n] by auto
  then show ?case using Cons by auto
qed

lemma concat0_1d:
  "vs \<noteq> [] \<Longrightarrow> list_all (\<lambda>a. shape a = Some [n]) vs \<Longrightarrow>
   \<exists>c. concat0 vs = Inr c \<and> shape c = Some [length vs * n]"
proof -
  assume ne: "vs \<noteq> []" and all: "list_all (\<lambda>a. shape a = Some [n]) vs"
  then obtain t ts where vs: "vs = t # ts" by (cases vs) auto
  have t: "shape t = Some [n]" using all vs by simp
  have ok: "list_all (\<lambda>u. case shape u of Some (m # sh') \<Rightarrow> sh' = [] | _ \<Rightarrow> False) vs"
    using all by (induction vs) auto
  have "concat0 vs = Inr (Dim (concat (map rows vs)))"
    using vs t ok by (simp add: concat0_def)
  moreover have "shape (Dim (concat (map rows vs))) = Some [length vs * n]"
    using concat_rows_1d [OF all] shape_Dim_scalars by metis
  ultimately show ?thesis by simp
qed


lemma fields_indices:
  "list_all (edge_item r) rb \<Longrightarrow>
   \<exists>vs. field_values rb ''indices'' = Inr vs \<and> length vs = length rb
      \<and> list_all (\<lambda>a. \<exists>n. shape a = Some [n]) vs
      \<and> concat (map flatten vs) = all_indices rb"
proof (induction rb)
  case Nil then show ?case by (simp add: all_indices_def)
next
  case (Cons i rb)
  then obtain vs where vs: "field_values rb ''indices'' = Inr vs" "length vs = length rb"
      "list_all (\<lambda>a. \<exists>n. shape a = Some [n]) vs" "concat (map flatten vs) = all_indices rb"
    by auto
  from Cons.prems obtain a n where "map_of i ''indices'' = Some a" "shape a = Some [n]"
    by (auto simp: edge_item_def split: option.splits list.splits)
  then show ?case using vs by (auto simp: getitem_def bindE_def all_indices_def)
qed

lemma concat0_indices:
  assumes "vs \<noteq> []" "list_all (\<lambda>a. \<exists>n. shape a = Some [n]) vs"
  shows "\<exists>xs. concat0 vs = Inr (Dim (map Scalar xs)) \<and> xs = concat (map flatten vs)"
proof -
  have rows: "concat (map rows vs) = map Scalar (concat (map flatten vs))"
    using assms(2)
  proof (induction vs)
    case Nil then show ?case by simp
  next
    case (Cons a vs)
    then obtain n where "shape a = Some [n]" by auto
    then obtain ys where a: "a = Dim ys" "list_all (\<lambda>x. shape x = Some []) ys"
      using shape_1d by blast
    have "ys = map Scalar (concat (map flatten ys))"
      using a(2)
    proof (induction ys)
      case Nil then show ?case by simp
    next
      case (Cons y ys)
      then obtain v where "y = Scalar v" using shape_scalar by auto
      then show ?case using Cons by simp
    qed
    then show ?case using Cons a by simp
  qed
  obtain t ts where vs: "vs = t # ts" using assms(1) by (cases vs) auto
  obtain n where t: "shape t = Some [n]" using assms(2) vs by auto
  have ok: "list_all (\<lambda>u. case shape u of Some (m # sh') \<Rightarrow> sh' = [] | _ \<Rightarrow> False) vs"
    using assms(2) by (induction vs) auto
  have "concat0 vs = Inr (Dim (concat (map rows vs)))"
    using vs t ok by (simp add: concat0_def)
  then show ?thesis using rows by simp
qed

lemma first_index_nth: "v \<in> set xs \<Longrightarrow> first_index xs v < length xs \<and> xs ! first_index xs v = v"
  by (induction xs) auto

lemma index_rows_unique:
  "index_rows (Dim (map Scalar xs)) (unique_index xs) = Inr (Dim (map Scalar (unique xs)))"
proof -
  have s: "set (unique xs) = set xs" by (simp add: unique_def)
  have "list_all (\<lambda>i. i < length (map Scalar xs)) (unique_index xs)"
    using first_index_nth s by (auto simp: unique_index_def list_all_iff)
  moreover have "map (\<lambda>i. map Scalar xs ! i) (unique_index xs) = map Scalar (unique xs)"
    using first_index_nth s by (auto simp: unique_index_def)
  ultimately show ?thesis by (simp add: index_rows_def)
qed

lemma flatten_scalars: "concat (map (flatten \<circ> Scalar) xs) = xs"
  by (induction xs) auto

text \<open>
  C4 (amended).  For a non-empty list of \<open>b\<close> items whose fields \<^verbatim>\<open>row\<close>, \<^verbatim>\<open>col\<close> and \<^verbatim>\<open>rel\<close>
  are one-dimensional with \<open>r + 1\<close> entries and whose field \<^verbatim>\<open>indices\<close> is one-dimensional,
  a batch that \<^verbatim>\<open>_collate_edge_batch\<close> returns has fields \<^verbatim>\<open>row\<close>, \<^verbatim>\<open>col\<close> and \<^verbatim>\<open>rel\<close> of
  length \<open>b * (r + 1)\<close>, and its field \<^verbatim>\<open>indices\<close> holds the distinct indices of the batch
  in increasing order, each once.
\<close>

theorem collate_edge_batch_fields:
  assumes "raw_batch \<noteq> []"
    and "list_all (edge_item r) raw_batch"
    and "collate_edge_batch raw_batch = Inr out"
  shows "list_all (\<lambda>k. case map_of out k of
                          Some a \<Rightarrow> shape a = Some [length raw_batch * Suc r] | None \<Rightarrow> False)
           [''row'', ''col'', ''rel'']
       \<and> map_of out ''indices'' = Some (Dim (map Scalar (sort (remdups (all_indices raw_batch)))))
       \<and> distinct (sort (remdups (all_indices raw_batch)))
       \<and> sorted (sort (remdups (all_indices raw_batch)))
       \<and> set (sort (remdups (all_indices raw_batch))) = set (all_indices raw_batch)"
proof -
  obtain first rest where rb: "raw_batch = first # rest"
    using assms(1) by (cases raw_batch) auto
  obtain vs where vs: "field_values raw_batch ''indices'' = Inr vs" "length vs = length raw_batch"
      "list_all (\<lambda>a. \<exists>n. shape a = Some [n]) vs" "concat (map flatten vs) = all_indices raw_batch"
    using fields_indices [OF assms(2)] by blast
  have vne: "vs \<noteq> []" using vs(2) assms(1) by auto
  have c: "concat0 vs = Inr (Dim (map Scalar (all_indices raw_batch)))"
    using concat0_indices [OF vne vs(3)] vs(4) by auto
  let ?ids = "unique_index (all_indices raw_batch)"
  have loop: "collate_keys raw_batch ?ids (map fst first)
                [(''indices'', Dim (map Scalar (unique (all_indices raw_batch))))] = Inr out"
    using assms(3) vs(1) c rb by (simp add: collate_edge_batch_def bindE_def flatten_scalars)
  have keys: "\<And>k. map_of first k \<noteq> None \<Longrightarrow> k \<in> set (map fst first)"
    by (metis map_of_eq_None_iff set_map)
  have first: "edge_item r first" using assms(2) rb by simp
  have edge: "\<And>k. k \<in> set [''row'', ''col'', ''rel''] \<Longrightarrow>
      \<exists>a. map_of out k = Some a \<and> shape a = Some [length raw_batch * Suc r]"
  proof -
    fix k assume k: "k \<in> set [''row'', ''col'', ''rel'']"
    then have "map_of first k \<noteq> None"
      using first by (auto simp: edge_item_def split: option.splits)
    then have "k \<in> set (map fst first)" using keys by blast
    then obtain v where v: "collate_field raw_batch ?ids k = Inr v" "map_of out k = Some v"
      using collate_keys_lookup [OF loop] by blast
    obtain fs where fs: "field_values raw_batch k = Inr fs" "length fs = length raw_batch"
        "list_all (\<lambda>a. shape a = Some [Suc r]) fs"
      using fields_edge [OF assms(2) k] by blast
    have "fs \<noteq> []" using fs(2) assms(1) by auto
    then obtain cc where "concat0 fs = Inr cc" "shape cc = Some [length fs * Suc r]"
      using concat0_1d fs(3) by blast
    then show "\<exists>a. map_of out k = Some a \<and> shape a = Some [length raw_batch * Suc r]"
      using v fs k by (auto simp: collate_field_def bindE_def)
  qed
  have "map_of first ''indices'' \<noteq> None"
    using first by (auto simp: edge_item_def split: option.splits)
  then have "''indices'' \<in> set (map fst first)" using keys by blast
  then obtain v where v: "collate_field raw_batch ?ids ''indices'' = Inr v"
      "map_of out ''indices'' = Some v"
    using collate_keys_lookup [OF loop] by blast
  have "v = Dim (map Scalar (unique (all_indices raw_batch)))"
    using v(1) vs(1) c index_rows_unique [of "all_indices raw_batch"]
    by (simp add: collate_field_def bindE_def)
  then have ind: "map_of out ''indices'' = Some (Dim (map Scalar (sort (remdups (all_indices raw_batch)))))"
    using v(2) by (simp add: unique_def)
  have l: "list_all (\<lambda>k. case map_of out k of
                          Some a \<Rightarrow> shape a = Some [length raw_batch * Suc r] | None \<Rightarrow> False)
           [''row'', ''col'', ''rel'']"
    using edge [of "''row''"] edge [of "''col''"] edge [of "''rel''"] by fastforce
  have d: "distinct (sort (remdups (all_indices raw_batch)))" by simp
  have so: "sorted (sort (remdups (all_indices raw_batch)))" by simp
  have se: "set (sort (remdups (all_indices raw_batch))) = set (all_indices raw_batch)" by simp
  show ?thesis using l ind d so se by blast
qed

lemma example_batch_collated: "collate_edge_batch [ex_item1, ex_item2] = Inr ex_collated"
  by code_simp

lemma example_batch_edge_items: "list_all (edge_item 1) [ex_item1, ex_item2]"
  by code_simp

theorem collate_edge_batch_fields_witness:
  "list_all (edge_item 1) [ex_item1, ex_item2]
   \<and> collate_edge_batch [ex_item1, ex_item2] = Inr ex_collated
   \<and> list_all (\<lambda>k. case map_of ex_collated k of
                      Some a \<Rightarrow> shape a = Some [length [ex_item1, ex_item2] * Suc 1]
                    | None \<Rightarrow> False)
       [''row'', ''col'', ''rel'']
   \<and> map_of ex_collated ''indices''
       = Some (Dim (map Scalar (sort (remdups (all_indices [ex_item1, ex_item2])))))
   \<and> distinct (sort (remdups (all_indices [ex_item1, ex_item2])))
   \<and> sorted (sort (remdups (all_indices [ex_item1, ex_item2])))
   \<and> set (sort (remdups (all_indices [ex_item1, ex_item2])))
       = set (all_indices [ex_item1, ex_item2])"
  using collate_edge_batch_fields [of "[ex_item1, ex_item2]" 1 ex_collated]
    example_batch_collated example_batch_edge_items
  by simp

text \<open>
  C4 as stated fails: np.unique sorts.  The two items hold the indices 5, 7 and 2, 5, 7; the
  collated field is 2, 5, 7, while the order of first occurrence is 5, 7, 2.
\<close>

theorem collate_edge_batch_order_counterexample:
  "collate_edge_batch [ex_item1, ex_item2] = Inr ex_collated
   \<and> map_of ex_collated ''indices'' = Some (Dim [Scalar 2, Scalar 5, Scalar 7])
   \<and> first_occurrences (all_indices [ex_item1, ex_item2]) = [5, 7, 2]
   \<and> map_of ex_collated ''indices''
       \<noteq> Some (Dim (map Scalar (first_occurrences (all_indices [ex_item1, ex_item2]))))"
proof -
  have a: "map_of ex_collated ''indices'' = Some (Dim [Scalar 2, Scalar 5, Scalar 7])"
    by code_simp
  have b: "first_occurrences (all_indices [ex_item1, ex_item2]) = [5, 7, 2]"
    by code_simp
  show ?thesis using example_batch_collated a b by simp
qed
section \<open>Properties of the dataset built from a spec\<close>





section \<open>Properties of training phases\<close>

lemma collect_losses_all:
  "list_all (contains d) ks \<Longrightarrow> \<exists>ls. collect_losses deepcopy ks d acc = Inr ls"
  by (induction ks arbitrary: acc) (auto simp: contains_def getitem_def bindE_def)

lemma TrainingPhase_init_weights:
  "TrainingPhase_init (kw\<lparr>kw_loss_weights := Some w\<rparr>) = Inr tp \<Longrightarrow> loss_weights tp = None"
  by (auto simp: TrainingPhase_init_def Let_def split: if_splits pytype.splits)

lemma TrainingPhase_init_weights_ignored:
  "TrainingPhase_init (kw\<lparr>kw_loss_weights := Some w\<rparr>)
     = (TrainingPhase_init (kw\<lparr>kw_loss_weights := Some w'\<rparr>) :: exn + 'L TrainingPhase)"
  by (simp add: TrainingPhase_init_def Let_def)

lemma TrainingPhase_init_loss_weights:
  "TrainingPhase_init kw = Inr tp \<Longrightarrow>
   loss_weights tp = (case kw_loss_weights kw of
                        None \<Rightarrow> Some (replicate (length (loss_keys tp)) 1) | Some w \<Rightarrow> None)"
  by (auto simp: TrainingPhase_init_def Let_def split: if_splits pytype.splits option.splits)

lemma phase_of_entry_weights:
  assumes "phase_of_entry entry = Inr tp"
    and "spec_loss entry = Some lo" and "weights lo = Some (Some w)"
  shows "loss_weights tp = None"
  using assms unfolding phase_of_entry_def
  apply (elim bindE_InrE)
  apply (auto simp: subscript_def split: if_splits dest!: TrainingPhase_init_loss_weights)
  done

lemma training_phases_loop_nth:
  "training_phases_loop spec acc = Inr tps \<Longrightarrow>
   length tps = length acc + length spec \<and> take (length acc) tps = acc \<and>
   (\<forall>i<length spec. phase_of_entry (spec ! i) = Inr (tps ! (length acc + i)))"
proof (induction spec arbitrary: acc)
  case Nil then show ?case by simp
next
  case (Cons entry spec)
  from Cons.prems obtain tp where tp: "phase_of_entry entry = Inr tp"
    and rest: "training_phases_loop spec (acc @ [tp]) = Inr tps"
    by (auto elim: bindE_InrE)
  from Cons.IH [OF rest] have len: "length tps = length acc + 1 + length spec"
    and tk: "take (length acc + 1) tps = acc @ [tp]"
    and nth: "\<forall>i<length spec. phase_of_entry (spec ! i) = Inr (tps ! (length acc + 1 + i))"
    by auto
  have tk': "take (length acc) tps = acc"
    using tk by (metis append_eq_conv_conj length_append_singleton take_Suc_conv_app_nth
        Suc_eq_plus1 butlast_snoc butlast_take diff_add_inverse2 le_add1 len trans_le_add1)
  have at: "tps ! length acc = tp"
    using tk len by (metis Suc_eq_plus1 less_add_one nth_append_length nth_take)
  show ?case
  proof (intro conjI allI impI)
    show "length tps = length acc + length (entry # spec)" using len by simp
    show "take (length acc) tps = acc" by (rule tk')
    fix i assume "i < length (entry # spec)"
    then show "phase_of_entry ((entry # spec) ! i) = Inr (tps ! (length acc + i))"
      using nth tp at by (cases i) auto
  qed
qed

text \<open>
  C7 (amended).  For every training phase with the loss keys \<^verbatim>\<open>a\<close>, \<^verbatim>\<open>b\<close>: binding against a
  mapping without the key \<^verbatim>\<open>b\<close> raises \<^verbatim>\<open>KeyError\<close>; binding against a mapping with both keys,
  when the attribute \<^verbatim>\<open>loss_weights\<close> of the phase holds two weights, sets the loss of the phase
  to a compound loss whose two children are what \<^verbatim>\<open>copy.deepcopy\<close> returns for the two mapped
  losses, in the order of the keys, with the weights of the phase; its name is the name of
  the phase when the phase has one, and the prefix \<^verbatim>\<open>comp_loss\<close> followed by a UUID otherwise.
  When the attribute holds another number of weights, binding against a mapping with both
  keys raises \<^verbatim>\<open>ValueError\<close>.  A phase constructed with these loss keys and no weights holds
  the two weights 1, 1.
\<close>

theorem determine_loss_two_keys:
  assumes "loss_keys tp = [''a'', ''b'']"
  shows "(\<not> contains d ''b'' \<longrightarrow> determine_loss deepcopy tp d uid = Inl KeyError)
       \<and> (map_of d ''a'' = Some la \<and> map_of d ''b'' = Some lb
            \<and> loss_weights tp = Some ws \<and> length ws = 2 \<longrightarrow>
          determine_loss deepcopy tp d uid
            = Inr (tp\<lparr>tp_loss :=
                Some (CompoundLoss (Loss_init ''comp_loss'' (tp_name tp) uid)
                        [deepcopy la, deepcopy lb] ws)\<rparr>))
       \<and> (tp_name tp = Some n \<longrightarrow> Loss_init ''comp_loss'' (tp_name tp) uid = n)
       \<and> (tp_name tp = None \<longrightarrow> Loss_init ''comp_loss'' (tp_name tp) uid = ''comp_loss'' @ uid)
       \<and> (contains d ''a'' \<and> contains d ''b'' \<and> loss_weights tp = Some ws \<and> length ws \<noteq> 2 \<longrightarrow>
          determine_loss deepcopy tp d uid = Inl ValueError)
       \<and> (TrainingPhase_init (kw\<lparr>kw_loss_keys := Some [''a'', ''b''], kw_loss_weights := None\<rparr>)
            = Inr tp' \<longrightarrow>
          loss_keys tp' = [''a'', ''b''] \<and> loss_weights tp' = Some [1, 1] \<and> tp_name tp' = kw_name kw)"
proof -
  have 1: "\<not> contains d ''b'' \<longrightarrow> determine_loss deepcopy tp d uid = Inl KeyError"
    using assms by (simp add: determine_loss_def bindE_def getitem_def contains_def split: option.splits)
  have 2: "map_of d ''a'' = Some la \<and> map_of d ''b'' = Some lb
            \<and> loss_weights tp = Some ws \<and> length ws = 2 \<longrightarrow>
          determine_loss deepcopy tp d uid
            = Inr (tp\<lparr>tp_loss :=
                Some (CompoundLoss (Loss_init ''comp_loss'' (tp_name tp) uid)
                        [deepcopy la, deepcopy lb] ws)\<rparr>)"
    using assms
    by (simp add: determine_loss_def bindE_def getitem_def contains_def getattr_loss_weights_def
        CompoundLoss_init_def)
  have 3: "tp_name tp = Some n \<longrightarrow> Loss_init ''comp_loss'' (tp_name tp) uid = n"
    by (simp add: Loss_init_def)
  have 5: "tp_name tp = None \<longrightarrow> Loss_init ''comp_loss'' (tp_name tp) uid = ''comp_loss'' @ uid"
    by (simp add: Loss_init_def)
  have 6: "contains d ''a'' \<and> contains d ''b'' \<and> loss_weights tp = Some ws \<and> length ws \<noteq> 2 \<longrightarrow>
          determine_loss deepcopy tp d uid = Inl ValueError"
    using assms
    by (auto simp add: determine_loss_def bindE_def getitem_def contains_def getattr_loss_weights_def
        CompoundLoss_init_def)
  have 4: "TrainingPhase_init (kw\<lparr>kw_loss_keys := Some [''a'', ''b''], kw_loss_weights := None\<rparr>)
            = Inr tp' \<longrightarrow>
          loss_keys tp' = [''a'', ''b''] \<and> loss_weights tp' = Some [1, 1] \<and> tp_name tp' = kw_name kw"
    by (auto simp: TrainingPhase_init_def Let_def or_default_def numeral_2_eq_2
        split: if_splits pytype.splits)
  show ?thesis using 1 2 3 4 5 6 by blast
qed

lemma ex_phase_ab_init:
  "TrainingPhase_init
     (no_keywords\<lparr>kw_name := Some ''phase1'', kw_loss_keys := Some [''a'', ''b''],
                  kw_loss_weights := None\<rparr>)
   = Inr ex_phase_ab"
  by (simp add: TrainingPhase_init_def Let_def or_default_def no_keywords_def ex_phase_ab_def
      numeral_2_eq_2)

theorem determine_loss_two_keys_witness:
  "determine_loss (\<lambda>l. l) ex_phase_ab [(''a'', Loss ''la'')] ''0''
     = (Inl KeyError :: exn + real loss TrainingPhase)
   \<and> determine_loss (\<lambda>l. l) ex_phase_ab ex_losses_ab ''0''
     = Inr (ex_phase_ab\<lparr>tp_loss := Some (CompoundLoss ''phase1'' [Loss ''la'', Loss ''lb''] [1, 1])\<rparr>)
   \<and> determine_loss (\<lambda>l. l) (ex_phase_ab\<lparr>loss_weights := Some [1, 1, 1]\<rparr>) ex_losses_ab ''0''
     = Inl ValueError
   \<and> TrainingPhase_init
       (no_keywords\<lparr>kw_name := Some ''phase1'', kw_loss_keys := Some [''a'', ''b''],
                    kw_loss_weights := None\<rparr>)
     = (Inr ex_phase_ab :: exn + real loss TrainingPhase)"
proof -
  have k: "loss_keys (ex_phase_ab :: real loss TrainingPhase) = [''a'', ''b'']"
    by (simp add: ex_phase_ab_def)
  have k3: "loss_keys (ex_phase_ab\<lparr>loss_weights := Some [1, 1, 1]\<rparr> :: real loss TrainingPhase)
              = [''a'', ''b'']"
    by (simp add: ex_phase_ab_def)
  have c: "determine_loss (\<lambda>l. l) (ex_phase_ab\<lparr>loss_weights := Some [1, 1, 1]\<rparr>) ex_losses_ab ''0''
     = Inl ValueError"
    using determine_loss_two_keys [OF k3, where d = ex_losses_ab and deepcopy = "\<lambda>l. l"
        and uid = "''0''" and ws = "[1, 1, 1]", THEN conjunct2, THEN conjunct2, THEN conjunct2,
        THEN conjunct2, THEN conjunct1]
    by (simp add: ex_losses_ab_def contains_def)
  have a: "determine_loss (\<lambda>l. l) ex_phase_ab [(''a'', Loss ''la'')] ''0''
             = (Inl KeyError :: exn + real loss TrainingPhase)"
    using determine_loss_two_keys [OF k, where d = "[(''a'', Loss ''la'')]"
        and uid = "''0''", THEN conjunct1]
    by (simp add: contains_def)
  have b: "determine_loss (\<lambda>l. l) ex_phase_ab ex_losses_ab ''0''
     = Inr (ex_phase_ab\<lparr>tp_loss := Some (CompoundLoss ''phase1'' [Loss ''la'', Loss ''lb''] [1, 1])\<rparr>)"
    using determine_loss_two_keys [OF k, where d = ex_losses_ab
        and uid = "''0''" and la = "Loss ''la''" and lb = "Loss ''lb''" and ws = "[1, 1]",
        THEN conjunct2, THEN conjunct1]
    by (simp add: ex_losses_ab_def ex_phase_ab_def Loss_init_def)
  show ?thesis using a b c ex_phase_ab_init by simp
qed

text \<open>
  C7 as stated fails: the phase that \<^verbatim>\<open>add_training_phase(loss_keys=["a", "b"])\<close> binds is a
  copy of the default phase with the new loss keys; it holds one weight, and binding it
  against a mapping with both keys raises \<^verbatim>\<open>ValueError\<close>.
\<close>

theorem determine_loss_two_keys_counterexample:
  "TrainingPhase_init no_keywords = (Inr ex_default_phase :: exn + real loss TrainingPhase)
   \<and> loss_keys (ex_default_phase\<lparr>loss_keys := [''a'', ''b'']\<rparr> :: real loss TrainingPhase)
       = [''a'', ''b'']
   \<and> determine_loss (\<lambda>l. l) (ex_default_phase\<lparr>loss_keys := [''a'', ''b'']\<rparr>) ex_losses_ab ''0''
       = Inl ValueError"
  by (simp add: TrainingPhase_init_def Let_def or_default_def no_keywords_def ex_default_phase_def
      determine_loss_def bindE_def getitem_def contains_def getattr_loss_weights_def
      CompoundLoss_init_def ex_losses_ab_def)

text \<open>
  C10.  A training phase constructed with explicit loss weights has no attribute
  \<^verbatim>\<open>loss_weights\<close>: a read of it raises \<^verbatim>\<open>AttributeError\<close>, as does \<^verbatim>\<open>_determine_loss\<close> when the
  phase has several loss keys, all bound; the phase is the same whatever weights were given;
  and a phase that \<^verbatim>\<open>_training_phases_from_spec\<close> builds from an entry with weights has no such
  attribute either.
\<close>

theorem explicit_loss_weights_never_assigned:
  assumes "TrainingPhase_init (kw\<lparr>kw_loss_weights := Some w\<rparr>) = Inr tp"
  shows "loss_weights tp = None
       \<and> getattr_loss_weights tp = Inl AttributeError
       \<and> (length (loss_keys tp) \<noteq> 1 \<and> list_all (contains d) (loss_keys tp) \<longrightarrow>
            determine_loss deepcopy tp d uid = Inl AttributeError)
       \<and> TrainingPhase_init (kw\<lparr>kw_loss_weights := Some w'\<rparr>) = Inr tp
       \<and> (training_phases_from_spec spec = Inr tps \<and> i < length spec
            \<and> spec_loss (spec ! i) = Some lo \<and> weights lo = Some (Some w2) \<longrightarrow>
          i < length tps \<and> loss_weights (tps ! i) = None
            \<and> getattr_loss_weights (tps ! i) = Inl AttributeError)"
proof -
  have a: "loss_weights tp = None"
    using assms by (rule TrainingPhase_init_weights)
  have b: "getattr_loss_weights tp = Inl AttributeError"
    using a by (simp add: getattr_loss_weights_def)
  have c: "length (loss_keys tp) \<noteq> 1 \<and> list_all (contains d) (loss_keys tp) \<longrightarrow>
            determine_loss deepcopy tp d uid = Inl AttributeError"
  proof
    assume h: "length (loss_keys tp) \<noteq> 1 \<and> list_all (contains d) (loss_keys tp)"
    then obtain ls where "collect_losses deepcopy (loss_keys tp) d [] = Inr ls"
      using collect_losses_all by blast
    then show "determine_loss deepcopy tp d uid = Inl AttributeError"
      using h b by (simp add: determine_loss_def bindE_def)
  qed
  have d: "TrainingPhase_init (kw\<lparr>kw_loss_weights := Some w'\<rparr>) = Inr tp"
    using assms by (metis TrainingPhase_init_weights_ignored)
  have e: "training_phases_from_spec spec = Inr tps \<and> i < length spec
            \<and> spec_loss (spec ! i) = Some lo \<and> weights lo = Some (Some w2) \<longrightarrow>
          i < length tps \<and> loss_weights (tps ! i) = None
            \<and> getattr_loss_weights (tps ! i) = Inl AttributeError"
  proof
    assume h: "training_phases_from_spec spec = Inr tps \<and> i < length spec
            \<and> spec_loss (spec ! i) = Some lo \<and> weights lo = Some (Some w2)"
    then have l: "training_phases_loop spec [] = Inr tps"
      by (simp add: training_phases_from_spec_def)
    have len: "length tps = length spec" and p: "phase_of_entry (spec ! i) = Inr (tps ! i)"
      using training_phases_loop_nth [OF l] h by auto
    have "loss_weights (tps ! i) = None"
      using phase_of_entry_weights [OF p] h by blast
    then show "i < length tps \<and> loss_weights (tps ! i) = None
            \<and> getattr_loss_weights (tps ! i) = Inl AttributeError"
      using len h by (simp add: getattr_loss_weights_def)
  qed
  show ?thesis using a b c d e by blast
qed

lemma ex_phase_weighted_init:
  "TrainingPhase_init (no_keywords\<lparr>kw_loss_keys := Some [''a'', ''b''], kw_loss_weights := Some w\<rparr>)
     = Inr ex_phase_weighted"
  by (simp add: TrainingPhase_init_def Let_def or_default_def no_keywords_def ex_phase_weighted_def)


lemma ex_entry_phase: "phase_of_entry ex_phase_entry = (Inr ex_phase_weighted :: exn + 'L TrainingPhase)"
proof -
  have n: "keyword_names no_keywords = []"
    by (simp add: keyword_names_def no_keywords_def)
  have m: "merge_keywords no_keywords no_keywords = no_keywords"
    by (simp add: merge_keywords_def first_some_def no_keywords_def)
  have i: "TrainingPhase_init (no_keywords\<lparr>kw_epochs := Some 5, kw_sampling := Some ''standard'',
             kw_loss_keys := Some [''a'', ''b''], kw_loss_weights := Some [2, 3],
             kw_optimizer := Some (OptimizerClass ''Adam'')\<rparr>)
           = (Inr ex_phase_weighted :: exn + 'L TrainingPhase)"
    by (simp add: TrainingPhase_init_def Let_def or_default_def no_keywords_def ex_phase_weighted_def)
  show ?thesis
    by (simp add: phase_of_entry_def ex_phase_entry_def bindE_def subscript_def n m i)
qed


lemma ex_phase_entry_phases:
  "training_phases_from_spec [ex_phase_entry] = (Inr [ex_phase_weighted] :: exn + 'L TrainingPhase list)"
  by (simp add: training_phases_from_spec_def ex_entry_phase bindE_def)

theorem explicit_loss_weights_never_assigned_witness:
  "TrainingPhase_init
       (no_keywords\<lparr>kw_loss_keys := Some [''a'', ''b''], kw_loss_weights := Some [2, 3]\<rparr>)
     = (Inr ex_phase_weighted :: exn + real loss TrainingPhase)
   \<and> loss_weights (ex_phase_weighted :: real loss TrainingPhase) = None
   \<and> getattr_loss_weights (ex_phase_weighted :: real loss TrainingPhase) = Inl AttributeError
   \<and> determine_loss (\<lambda>l. l) ex_phase_weighted ex_losses_ab ''0'' = Inl AttributeError
   \<and> TrainingPhase_init
       (no_keywords\<lparr>kw_loss_keys := Some [''a'', ''b''], kw_loss_weights := Some [7]\<rparr>)
     = (Inr ex_phase_weighted :: exn + real loss TrainingPhase)
   \<and> training_phases_from_spec [ex_phase_entry]
     = (Inr [ex_phase_weighted] :: exn + real loss TrainingPhase list)
   \<and> getattr_loss_weights ([ex_phase_weighted :: real loss TrainingPhase] ! 0)
     = Inl AttributeError"
proof -
  let ?kw = "no_keywords\<lparr>kw_loss_keys := Some [''a'', ''b'']\<rparr>"
  have i: "TrainingPhase_init (?kw\<lparr>kw_loss_weights := Some [2, 3]\<rparr>)
             = (Inr ex_phase_weighted :: exn + real loss TrainingPhase)"
    by (rule ex_phase_weighted_init)
  have s: "training_phases_from_spec [ex_phase_entry]
             = (Inr [ex_phase_weighted] :: exn + real loss TrainingPhase list)"
    by (rule ex_phase_entry_phases)
  have k: "length (loss_keys (ex_phase_weighted :: real loss TrainingPhase)) \<noteq> 1
           \<and> list_all (contains ex_losses_ab) (loss_keys (ex_phase_weighted :: real loss TrainingPhase))"
    by (simp add: ex_phase_weighted_def ex_losses_ab_def contains_def)
  have lo: "spec_loss ([ex_phase_entry] ! 0)
              = Some \<lparr> components = Some [''a'', ''b''], weights = Some (Some [2, 3]) \<rparr>"
    by (simp add: ex_phase_entry_def)
  show ?thesis
    using explicit_loss_weights_never_assigned [OF i, where d = ex_losses_ab and uid = "''0''"
        and w' = "[7]" and spec = "[ex_phase_entry]"
        and tps = "[ex_phase_weighted :: real loss TrainingPhase]" and i = 0
        and lo = "\<lparr> components = Some [''a'', ''b''], weights = Some (Some [2, 3]) \<rparr>"
        and ?w2.0 = "[2, 3]"]
      i s k lo
    by simp
qed


section \<open>Global relations are computed once\<close>

lemma ex_dr_registered:
  "register_dataset (ex_dr_unregistered :: (nat, TensorLike, 'L) ParametricDR) (Inr ex_raw)
     = Inr ex_dr"
  by (simp add: register_dataset_def ex_raw_def Dataset_init_def contains_def
      Dataset_of_dict_def bindE_def getitem_def Dataset_len_def numeral_2_eq_2
      ex_dr_def ex_dataset_def)

lemma relations_loop_returns:
  assumes "dataset_attr s = Some ds" and "distinct (map fst rels)"
    and "\<forall>(k, rel)\<in>set rels. \<exists>x rd. map_of (data ds) (data_key rel) = Some x
            \<and> relations_compute rel x = Inr rd"
  shows "\<exists>g. relations_loop rels s
               = Inr (s\<lparr>global_relation_data := g, computed_log := computed_log s @ map fst rels\<rparr>)
            \<and> (\<forall>(k, rel)\<in>set rels. \<exists>x. map_of (data ds) (data_key rel) = Some x
                  \<and> getitem g k = relations_compute rel x)
            \<and> (\<forall>k. k \<notin> fst ` set rels \<longrightarrow> map_of g k = map_of (global_relation_data s) k)"
  using assms
proof (induction rels arbitrary: s)
  case Nil
  then show ?case by (intro exI [of _ "global_relation_data s"]) simp
next
  case (Cons p rels)
  obtain k rel where p: "p = (k, rel)" by (cases p)
  from Cons.prems(3) p obtain x rd where
    x: "map_of (data ds) (data_key rel) = Some x" and rd: "relations_compute rel x = Inr rd"
    by auto
  let ?s2 = "s\<lparr>computed_log := computed_log s @ [k],
               global_relation_data := AList.update k rd (global_relation_data s)\<rparr>"
  have step: "relations_loop (p # rels) s = relations_loop rels ?s2"
    using Cons.prems(1) x rd
    by (simp add: p dataset_property_def bindE_def getitem_def Let_def)
  have "dataset_attr ?s2 = Some ds" using Cons.prems(1) by simp
  moreover have "distinct (map fst rels)" using Cons.prems(2) by simp
  moreover have "\<forall>(k, rel)\<in>set rels. \<exists>x rd. map_of (data ds) (data_key rel) = Some x
            \<and> relations_compute rel x = Inr rd"
    using Cons.prems(3) by simp
  ultimately obtain g where g:
      "relations_loop rels ?s2
         = Inr (?s2\<lparr>global_relation_data := g, computed_log := computed_log ?s2 @ map fst rels\<rparr>)"
      "\<forall>(k, rel)\<in>set rels. \<exists>x. map_of (data ds) (data_key rel) = Some x
            \<and> getitem g k = relations_compute rel x"
      "\<forall>k'. k' \<notin> fst ` set rels \<longrightarrow> map_of g k' = map_of (global_relation_data ?s2) k'"
    using Cons.IH [of ?s2] by blast
  have knot: "k \<notin> fst ` set rels" using Cons.prems(2) p by force
  have gk: "getitem g k = relations_compute rel x"
    using g(3) knot rd by (simp add: getitem_def update_conv')
  have "relations_loop (p # rels) s
      = Inr (s\<lparr>global_relation_data := g, computed_log := computed_log s @ map fst (p # rels)\<rparr>)"
    using step g(1) by (simp add: p)
  moreover have "\<forall>(k, rel)\<in>set (p # rels). \<exists>x. map_of (data ds) (data_key rel) = Some x
            \<and> getitem g k = relations_compute rel x"
    using g(2) gk x by (simp add: p)
  moreover have "\<forall>k'. k' \<notin> fst ` set (p # rels) \<longrightarrow> map_of g k' = map_of (global_relation_data s) k'"
    using g(3) by (simp add: p update_conv')
  ultimately show ?case by blast
qed

lemma compute_global_relations_computes:
  assumes "dataset_registered s" and "dataset_attr s = Some ds"
    and "force \<or> \<not> global_relations_computed s"
    and "distinct (map fst (global_relations s))"
    and "\<forall>(k, rel)\<in>set (global_relations s).
           \<exists>x rd. map_of (data ds) (data_key rel) = Some x \<and> relations_compute rel x = Inr rd"
  shows "\<exists>g. compute_global_relations s force
               = Inr (s\<lparr>global_relation_data := g,
                       computed_log := computed_log s @ map fst (global_relations s),
                       global_relations_computed := True\<rparr>)
            \<and> (\<forall>(k, rel)\<in>set (global_relations s). \<exists>x. map_of (data ds) (data_key rel) = Some x
                  \<and> getitem g k = relations_compute rel x)
            \<and> (\<forall>k. k \<notin> fst ` set (global_relations s) \<longrightarrow>
                  map_of g k = map_of (global_relation_data s) k)"
proof -
  obtain g where g:
      "relations_loop (global_relations s) s
         = Inr (s\<lparr>global_relation_data := g,
                 computed_log := computed_log s @ map fst (global_relations s)\<rparr>)"
      "\<forall>(k, rel)\<in>set (global_relations s). \<exists>x. map_of (data ds) (data_key rel) = Some x
            \<and> getitem g k = relations_compute rel x"
      "\<forall>k. k \<notin> fst ` set (global_relations s) \<longrightarrow> map_of g k = map_of (global_relation_data s) k"
    using relations_loop_returns [OF assms(2,4,5)] by blast
  have "compute_global_relations s force
               = Inr (s\<lparr>global_relation_data := g,
                       computed_log := computed_log s @ map fst (global_relations s),
                       global_relations_computed := True\<rparr>)"
    using assms(1-3) g(1) by (auto simp add: compute_global_relations_def dataset_property_def)
  then show ?thesis using g(2,3) by blast
qed

lemma compute_global_relations_skips:
  assumes "dataset_registered s" and "dataset_attr s = Some ds" and "global_relations_computed s"
  shows "compute_global_relations s False = Inr s"
  using assms by (simp add: compute_global_relations_def dataset_property_def)

text \<open>
  C9.  Take an instance with a registered dataset whose global relations have not been
  computed and can all be computed from the dataset.  Then \<^verbatim>\<open>compute_global_relations()\<close>
  returns after calling \<^verbatim>\<open>compute_relations\<close> of each global relation once, in order, and the
  mapping of the relation data then holds, under the key of each relation, what its
  \<^verbatim>\<open>compute_relations\<close> returns for its column of the dataset.  A second call without \<^verbatim>\<open>force\<close>
  returns the instance as it is: nothing is computed and the mapping is unchanged, whatever
  it holds.  A call with \<^verbatim>\<open>force=True\<close> calls \<^verbatim>\<open>compute_relations\<close> of each relation once more
  and stores the results in the mapping, whatever it held.
\<close>

theorem compute_global_relations_twice:
  assumes "dataset_registered s" and "dataset_attr s = Some ds"
    and "\<not> global_relations_computed s"
    and "distinct (map fst (global_relations s))"
    and "\<forall>(k, rel)\<in>set (global_relations s).
           \<exists>x rd. map_of (data ds) (data_key rel) = Some x \<and> relations_compute rel x = Inr rd"
  shows "\<exists>s1. compute_global_relations s False = Inr s1
           \<and> computed_log s1 = computed_log s @ map fst (global_relations s)
           \<and> (\<forall>(k, rel)\<in>set (global_relations s).
                 \<exists>x. map_of (data ds) (data_key rel) = Some x
                   \<and> getitem (global_relation_data s1) k = relations_compute rel x)
           \<and> (\<forall>k. k \<notin> fst ` set (global_relations s) \<longrightarrow>
                 map_of (global_relation_data s1) k = map_of (global_relation_data s) k)
           \<and> compute_global_relations s1 False = Inr s1
           \<and> (\<forall>g. compute_global_relations (s1\<lparr>global_relation_data := g\<rparr>) False
                     = Inr (s1\<lparr>global_relation_data := g\<rparr>))
           \<and> (\<forall>g. \<exists>s2. compute_global_relations (s1\<lparr>global_relation_data := g\<rparr>) True = Inr s2
                \<and> computed_log s2 = computed_log s1 @ map fst (global_relations s)
                \<and> (\<forall>(k, rel)\<in>set (global_relations s).
                      \<exists>x. map_of (data ds) (data_key rel) = Some x
                        \<and> getitem (global_relation_data s2) k = relations_compute rel x)
                \<and> (\<forall>k. k \<notin> fst ` set (global_relations s) \<longrightarrow>
                      map_of (global_relation_data s2) k = map_of g k))"
proof -
  obtain g1 where g1:
      "compute_global_relations s False
         = Inr (s\<lparr>global_relation_data := g1,
                 computed_log := computed_log s @ map fst (global_relations s),
                 global_relations_computed := True\<rparr>)"
      "\<forall>(k, rel)\<in>set (global_relations s). \<exists>x. map_of (data ds) (data_key rel) = Some x
            \<and> getitem g1 k = relations_compute rel x"
      "\<forall>k. k \<notin> fst ` set (global_relations s) \<longrightarrow> map_of g1 k = map_of (global_relation_data s) k"
    using compute_global_relations_computes [OF assms(1,2) _ assms(4,5), of False] assms(3)
    by blast
  let ?s1 = "s\<lparr>global_relation_data := g1,
               computed_log := computed_log s @ map fst (global_relations s),
               global_relations_computed := True\<rparr>"
  have skip: "compute_global_relations (?s1\<lparr>global_relation_data := g\<rparr>) False
                = Inr (?s1\<lparr>global_relation_data := g\<rparr>)" for g
    using assms(1,2) by (intro compute_global_relations_skips [of _ ds]) simp_all
  have second: "compute_global_relations ?s1 False = Inr ?s1"
    using assms(1,2) by (intro compute_global_relations_skips [of _ ds]) simp_all
  have forced: "\<exists>s2. compute_global_relations (?s1\<lparr>global_relation_data := g\<rparr>) True = Inr s2
                \<and> computed_log s2 = computed_log ?s1 @ map fst (global_relations s)
                \<and> (\<forall>(k, rel)\<in>set (global_relations s).
                      \<exists>x. map_of (data ds) (data_key rel) = Some x
                        \<and> getitem (global_relation_data s2) k = relations_compute rel x)
                \<and> (\<forall>k. k \<notin> fst ` set (global_relations s) \<longrightarrow>
                      map_of (global_relation_data s2) k = map_of g k)" for g
  proof -
    let ?sg = "?s1\<lparr>global_relation_data := g\<rparr>"
    have "dataset_registered ?sg" "dataset_attr ?sg = Some ds" "True \<or> \<not> global_relations_computed ?sg"
      "distinct (map fst (global_relations ?sg))"
      "\<forall>(k, rel)\<in>set (global_relations ?sg).
           \<exists>x rd. map_of (data ds) (data_key rel) = Some x \<and> relations_compute rel x = Inr rd"
      using assms by simp_all
    from compute_global_relations_computes [OF this] obtain g2 where g2:
      "compute_global_relations ?sg True
         = Inr (?sg\<lparr>global_relation_data := g2,
                 computed_log := computed_log ?sg @ map fst (global_relations ?sg),
                 global_relations_computed := True\<rparr>)"
      "\<forall>(k, rel)\<in>set (global_relations ?sg). \<exists>x. map_of (data ds) (data_key rel) = Some x
            \<and> getitem g2 k = relations_compute rel x"
      "\<forall>k. k \<notin> fst ` set (global_relations ?sg) \<longrightarrow> map_of g2 k = map_of (global_relation_data ?sg) k"
      by blast
    show ?thesis
      using g2 by (intro exI [of _ "?sg\<lparr>global_relation_data := g2,
                 computed_log := computed_log ?sg @ map fst (global_relations ?sg),
                 global_relations_computed := True\<rparr>"]) simp
  qed
  show ?thesis
    using g1 second skip forced
    by (intro exI [of _ ?s1]) simp
qed

text \<open>
  The instance with one global relation: the first call computes it, the second call
  changes nothing, and a forced call computes it again, also when the mapping has been
  emptied in between.
\<close>

lemma ex_dr_relations_computed:
  "compute_global_relations (ex_dr :: (nat, TensorLike, 'L) ParametricDR) False
     = Inr ex_dr_relations"
  by (simp add: compute_global_relations_def dataset_property_def ex_dr_def
      ex_dr_unregistered_def ex_dataset_def bindE_def getitem_def ex_dr_relations_def)

theorem compute_global_relations_twice_witness:
  "compute_global_relations (ex_dr :: (nat, TensorLike, unit) ParametricDR) False
     = Inr ex_dr_relations
   \<and> global_relation_data (ex_dr_relations :: (nat, TensorLike, unit) ParametricDR)
     = [(''rel'', Tensor CPU (Dim [Scalar 1, Scalar 2]))]
   \<and> computed_log (ex_dr_relations :: (nat, TensorLike, unit) ParametricDR) = [''rel'']
   \<and> compute_global_relations (ex_dr_relations :: (nat, TensorLike, unit) ParametricDR) False
     = Inr ex_dr_relations
   \<and> compute_global_relations (ex_dr_relations :: (nat, TensorLike, unit) ParametricDR) True
     = Inr (ex_dr_relations\<lparr>computed_log := [''rel'', ''rel'']\<rparr>)
   \<and> compute_global_relations
       (ex_dr_relations\<lparr>global_relation_data := []\<rparr> :: (nat, TensorLike, unit) ParametricDR) True
     = Inr (ex_dr_relations\<lparr>computed_log := [''rel'', ''rel'']\<rparr>)"
proof -
  have h: "dataset_registered (ex_dr :: (nat, TensorLike, unit) ParametricDR)"
    "dataset_attr (ex_dr :: (nat, TensorLike, unit) ParametricDR) = Some ex_dataset"
    "\<not> global_relations_computed (ex_dr :: (nat, TensorLike, unit) ParametricDR)"
    "distinct (map fst (global_relations (ex_dr :: (nat, TensorLike, unit) ParametricDR)))"
    "\<forall>(k, rel)\<in>set (global_relations (ex_dr :: (nat, TensorLike, unit) ParametricDR)).
           \<exists>x rd. map_of (data ex_dataset) (data_key rel) = Some x \<and> relations_compute rel x = Inr rd"
    by (simp_all add: ex_dr_def ex_dr_unregistered_def ex_dataset_def)
  have c: "compute_global_relations (ex_dr_relations :: (nat, TensorLike, unit) ParametricDR) True
     = Inr (ex_dr_relations\<lparr>computed_log := [''rel'', ''rel'']\<rparr>)"
    "compute_global_relations
       (ex_dr_relations\<lparr>global_relation_data := []\<rparr> :: (nat, TensorLike, unit) ParametricDR) True
     = Inr (ex_dr_relations\<lparr>computed_log := [''rel'', ''rel'']\<rparr>)"
    by (simp_all add: compute_global_relations_def dataset_property_def ex_dr_def
      ex_dr_unregistered_def ex_dataset_def bindE_def getitem_def ex_dr_relations_def)
  from compute_global_relations_twice [OF h] obtain s1 where
    "compute_global_relations (ex_dr :: (nat, TensorLike, unit) ParametricDR) False = Inr s1"
    "compute_global_relations s1 False = Inr s1"
    by blast
  then have "compute_global_relations (ex_dr_relations :: (nat, TensorLike, unit) ParametricDR) False
     = Inr ex_dr_relations"
    using ex_dr_relations_computed [where ?'L = unit] by simp
  then show ?thesis
    using ex_dr_relations_computed [where ?'L = unit] c
    by (simp add: ex_dr_relations_def)
qed

section \<open>Derived data\<close>

lemma with_out_dim_sel:
  "func (with_out_dim e) = func e"
  "requires_relations (with_out_dim e) = requires_relations e"
  "type_key_tuples (with_out_dim e) = type_key_tuples e"
  "kwargs (with_out_dim (with_out_dim e)) = kwargs (with_out_dim e)"
  by (simp_all add: with_out_dim_def contains_def update_conv')

lemma select_args_cong:
  assumes "\<forall>(i, j)\<in>set tuples. i = ''data'' \<longrightarrow> map_of d j = map_of d' j"
  shows "select_args d r tuples = select_args d' r tuples"
  using assms
proof (induction tuples)
  case Nil
  then show ?case by simp
next
  case (Cons p tuples)
  obtain i j where p: "p = (i, j)" by (cases p)
  from Cons have "select_args d r tuples = select_args d' r tuples" by simp
  moreover from Cons.prems p have "i = ''data'' \<longrightarrow> getitem d j = getitem d' j"
    by (simp add: getitem_def)
  ultimately show ?case by (simp add: p)
qed

lemma derive_entry_returns:
  assumes "dataset_registered s" and "dataset_attr s = Some ds"
    and "requires_relations e \<longrightarrow> global_relations_computed s"
    and "select_args (data ds) (global_relation_data s) (type_key_tuples e) = Inr args"
    and "func e args (kwargs (with_out_dim e)) = Inr (Array a)"
  shows "\<exists>ds1. derive_entry s attached k e = Inr (s\<lparr>dataset_attr := Some ds1\<rparr>)
           \<and> data ds1 = AList.update k (to_torch a) (data ds)"
proof -
  let ?e = "with_out_dim e"
  let ?s1 = "store_entry s attached k ?e"
  have id: "s\<lparr>dataset_attr := Some ds\<rparr> = s"
    using assms(2) by (cases s) auto
  have "?s1 = s\<lparr>dataset_attr :=
                 Some (if attached
                       then ds\<lparr>derived_entries := AList.update k ?e (derived_entries ds)\<rparr>
                       else ds)\<rparr>"
    using assms(2) id by (simp add: store_entry_def)
  then obtain ds0 where ds0: "?s1 = s\<lparr>dataset_attr := Some ds0\<rparr>" "data ds0 = data ds"
    by (cases attached) simp_all
  have args: "select_args (data ds0) (global_relation_data ?s1) (type_key_tuples ?e) = Inr args"
    using assms(4) ds0 by (simp add: with_out_dim_sel)
  have a: "func ?e args (kwargs ?e) = Inr (Array a)"
    using assms(5) by (simp add: with_out_dim_sel)
  have "derive_entry s attached k e = add_to_dataset ?s1 [(k, Array a)]"
    using assms(3) args a ds0(1)
    by (auto simp add: derive_entry_def Let_def dataset_property_def bindE_def)
  also have "\<dots> = Inr (s\<lparr>dataset_attr := Some (ds0\<lparr>data := AList.update k (to_torch a) (data ds0)\<rparr>)\<rparr>)"
    using assms(1) by (simp add: ds0(1) add_to_dataset_def dataset_property_def)
  finally have "derive_entry s attached k e
      = Inr (s\<lparr>dataset_attr := Some (ds0\<lparr>data := AList.update k (to_torch a) (data ds0)\<rparr>)\<rparr>)" .
  then show ?thesis
    using ds0(2)
    by (intro exI [of _ "ds0\<lparr>data := AList.update k (to_torch a) (data ds0)\<rparr>"]) simp
qed

lemma derived_loop_values:
  assumes "dataset_registered s" and "dataset_attr s = Some ds"
    and "distinct (map fst items)"
    and "\<forall>(k, e)\<in>set items.
           (requires_relations e \<longrightarrow> global_relations_computed s)
         \<and> (\<forall>(i, j)\<in>set (type_key_tuples e). i = ''data'' \<longrightarrow> j \<notin> fst ` set items)
         \<and> (\<exists>args a. select_args (data ds) (global_relation_data s) (type_key_tuples e) = Inr args
               \<and> func e args (kwargs (with_out_dim e)) = Inr (Array a))"
  shows "\<exists>ds1. derived_loop False items s attached = Inr (s\<lparr>dataset_attr := Some ds1\<rparr>)
           \<and> (items \<noteq> [] \<longrightarrow> derived_entries ds1 = [])
           \<and> (items = [] \<longrightarrow> ds1 = ds)
           \<and> (\<forall>(k, e)\<in>set items.
                 \<exists>args a. select_args (data ds) (global_relation_data s) (type_key_tuples e) = Inr args
                   \<and> func e args (kwargs (with_out_dim e)) = Inr (Array a)
                   \<and> map_of (data ds1) k = Some (to_torch a))
           \<and> (\<forall>j. j \<notin> fst ` set items \<longrightarrow> map_of (data ds1) j = map_of (data ds) j)"
  using assms
proof (induction items arbitrary: s ds attached)
  case Nil
  then show ?case by simp
next
  case (Cons p items)
  obtain k e where p: "p = (k, e)" by (cases p)
  have req: "requires_relations e \<longrightarrow> global_relations_computed s"
    using Cons.prems(4) p by simp
  obtain args a where args:
      "select_args (data ds) (global_relation_data s) (type_key_tuples e) = Inr args"
      "func e args (kwargs (with_out_dim e)) = Inr (Array a)"
    using Cons.prems(4) p by auto
  obtain ds1 where d1: "derive_entry s attached k e = Inr (s\<lparr>dataset_attr := Some ds1\<rparr>)"
      "data ds1 = AList.update k (to_torch a) (data ds)"
    using derive_entry_returns [OF Cons.prems(1,2) req args] by blast
  let ?ds2 = "ds1\<lparr>derived_entries := []\<rparr>"
  let ?s2 = "s\<lparr>dataset_attr := Some ?ds2\<rparr>"
  have c: "clear_definitions (s\<lparr>dataset_attr := Some ds1\<rparr>) = Inr ?s2"
    by (simp add: clear_definitions_def)
  have knot: "k \<notin> fst ` set items" using Cons.prems(3) p by force
  have other: "j \<noteq> k \<Longrightarrow> map_of (data ?ds2) j = map_of (data ds) j" for j
    by (simp add: d1(2) update_conv')
  have same: "select_args (data ?ds2) (global_relation_data s) (type_key_tuples e')
                = select_args (data ds) (global_relation_data s) (type_key_tuples e')"
    if "(k', e') \<in> set items" for k' e'
  proof (rule select_args_cong)
    have "(k', e') \<in> set (p # items)" using that by simp
    from bspec [OF Cons.prems(4) this]
    have src: "\<forall>(i, j)\<in>set (type_key_tuples e'). i = ''data'' \<longrightarrow> j \<notin> fst ` set (p # items)"
      by simp
    have kin: "k \<in> fst ` set (p # items)" by (simp add: p)
    show "\<forall>(i, j)\<in>set (type_key_tuples e').
                 i = ''data'' \<longrightarrow> map_of (data ?ds2) j = map_of (data ds) j"
    proof (intro ballI, clarify)
      fix i j assume "(''data'', j) \<in> set (type_key_tuples e')"
      then have "j \<notin> fst ` set (p # items)" using src by blast
      then have "j \<noteq> k" using kin by blast
      then show "map_of (data ?ds2) j = map_of (data ds) j" by (rule other)
    qed
  qed
  have "\<forall>(k', e')\<in>set items.
           (requires_relations e' \<longrightarrow> global_relations_computed ?s2)
         \<and> (\<forall>(i, j)\<in>set (type_key_tuples e'). i = ''data'' \<longrightarrow> j \<notin> fst ` set items)
         \<and> (\<exists>args a. select_args (data ?ds2) (global_relation_data ?s2) (type_key_tuples e') = Inr args
               \<and> func e' args (kwargs (with_out_dim e')) = Inr (Array a))"
  proof (intro ballI, clarify, intro conjI)
    fix k' e' assume m: "(k', e') \<in> set items"
    then have "(k', e') \<in> set (p # items)" by simp
    from bspec [OF Cons.prems(4) this]
    have h: "(requires_relations e' \<longrightarrow> global_relations_computed s)
         \<and> (\<forall>(i, j)\<in>set (type_key_tuples e'). i = ''data'' \<longrightarrow> j \<notin> fst ` set (p # items))
         \<and> (\<exists>args a. select_args (data ds) (global_relation_data s) (type_key_tuples e') = Inr args
               \<and> func e' args (kwargs (with_out_dim e')) = Inr (Array a))"
      by simp
    show "requires_relations e' \<longrightarrow> global_relations_computed ?s2" using h by simp
    show "\<forall>(i, j)\<in>set (type_key_tuples e'). i = ''data'' \<longrightarrow> j \<notin> fst ` set items"
      using h by fastforce
    show "\<exists>args a. select_args (data ?ds2) (global_relation_data ?s2) (type_key_tuples e') = Inr args
               \<and> func e' args (kwargs (with_out_dim e')) = Inr (Array a)"
      using h same [OF m] by simp
  qed
  moreover have "dataset_registered ?s2" "dataset_attr ?s2 = Some ?ds2" "distinct (map fst items)"
    using Cons.prems(1,3) by simp_all
  ultimately obtain ds3 where d3:
      "derived_loop False items ?s2 False = Inr (?s2\<lparr>dataset_attr := Some ds3\<rparr>)"
      "items \<noteq> [] \<longrightarrow> derived_entries ds3 = []"
      "items = [] \<longrightarrow> ds3 = ?ds2"
      "\<forall>(k, e)\<in>set items.
          \<exists>args a. select_args (data ?ds2) (global_relation_data ?s2) (type_key_tuples e) = Inr args
            \<and> func e args (kwargs (with_out_dim e)) = Inr (Array a)
            \<and> map_of (data ds3) k = Some (to_torch a)"
      "\<forall>j. j \<notin> fst ` set items \<longrightarrow> map_of (data ds3) j = map_of (data ?ds2) j"
    using Cons.IH [of ?s2 ?ds2 False] by blast
  have 1: "derived_loop False (p # items) s attached = Inr (s\<lparr>dataset_attr := Some ds3\<rparr>)"
    using d1(1) c d3(1) by (simp add: p)
  have 2: "derived_entries ds3 = []"
    using d3(2,3) by (cases "items = []") simp_all
  have 3: "\<forall>(k', e')\<in>set (p # items).
             \<exists>args a. select_args (data ds) (global_relation_data s) (type_key_tuples e') = Inr args
               \<and> func e' args (kwargs (with_out_dim e')) = Inr (Array a)
               \<and> map_of (data ds3) k' = Some (to_torch a)"
  proof (intro ballI, clarify)
    fix k' e' assume m: "(k', e') \<in> set (p # items)"
    show "\<exists>args a. select_args (data ds) (global_relation_data s) (type_key_tuples e') = Inr args
               \<and> func e' args (kwargs (with_out_dim e')) = Inr (Array a)
               \<and> map_of (data ds3) k' = Some (to_torch a)"
    proof (cases "(k', e') = (k, e)")
      case True
      have "map_of (data ds3) k = Some (to_torch a)"
        using d3(5) knot by (simp add: d1(2) update_conv')
      then show ?thesis using True args by auto
    next
      case False
      then have m': "(k', e') \<in> set items" using m p by auto
      then obtain args' a' where r:
          "select_args (data ?ds2) (global_relation_data ?s2) (type_key_tuples e') = Inr args'"
          "func e' args' (kwargs (with_out_dim e')) = Inr (Array a')"
          "map_of (data ds3) k' = Some (to_torch a')"
        using d3(4) by fastforce
      have "select_args (data ds) (global_relation_data s) (type_key_tuples e') = Inr args'"
        using r(1) same [OF m'] by simp
      then show ?thesis using r(2,3) by (intro exI [of _ args'] exI [of _ a']) simp
    qed
  qed
  have 4: "\<forall>j. j \<notin> fst ` set (p # items) \<longrightarrow> map_of (data ds3) j = map_of (data ds) j"
    using d3(5) other by (auto simp: p)
  show ?case using 1 2 3 4 by (intro exI [of _ ds3]) simp
qed

text \<open>
  C5 (amended).  Take an instance with a registered dataset whose derived entries have
  distinct keys, none of which is a source column of a derived entry, and can each be
  computed: its relations are there if an entry requires them, and its function returns an
  array for its sources and its options, to which \<^verbatim>\<open>out_dim\<close> has been added if absent.  Then
  \<^verbatim>\<open>compute_derived_data()\<close>, with \<^verbatim>\<open>keep_definitions\<close> false, returns; it changes the dataset
  only; every derived entry found at the start, not only the first one, is afterwards a
  column of the dataset that holds the tensor of what its function returns; the other
  columns are as they were; and no definition is left.
\<close>

theorem compute_derived_data_all_entries:
  assumes "dataset_registered s" and "dataset_attr s = Some ds"
    and "distinct (map fst (derived_entries ds))"
    and "\<forall>(k, e)\<in>set (derived_entries ds).
           (requires_relations e \<longrightarrow> global_relations_computed s)
         \<and> (\<forall>(i, j)\<in>set (type_key_tuples e).
               i = ''data'' \<longrightarrow> j \<notin> fst ` set (derived_entries ds))
         \<and> (\<exists>args a. select_args (data ds) (global_relation_data s) (type_key_tuples e) = Inr args
               \<and> func e args (kwargs (with_out_dim e)) = Inr (Array a))"
  shows "\<exists>ds1. compute_derived_data s False = Inr (s\<lparr>dataset_attr := Some ds1\<rparr>)
           \<and> derived_entries ds1 = []
           \<and> (\<forall>(k, e)\<in>set (derived_entries ds).
                 \<exists>args a. select_args (data ds) (global_relation_data s) (type_key_tuples e) = Inr args
                   \<and> func e args (kwargs (with_out_dim e)) = Inr (Array a)
                   \<and> map_of (data ds1) k = Some (to_torch a))
           \<and> (\<forall>j. j \<notin> fst ` set (derived_entries ds) \<longrightarrow>
                 map_of (data ds1) j = map_of (data ds) j)"
proof -
  obtain ds1 where d:
      "derived_loop False (derived_entries ds) s True = Inr (s\<lparr>dataset_attr := Some ds1\<rparr>)"
      "derived_entries ds \<noteq> [] \<longrightarrow> derived_entries ds1 = []"
      "derived_entries ds = [] \<longrightarrow> ds1 = ds"
      "\<forall>(k, e)\<in>set (derived_entries ds).
          \<exists>args a. select_args (data ds) (global_relation_data s) (type_key_tuples e) = Inr args
            \<and> func e args (kwargs (with_out_dim e)) = Inr (Array a)
            \<and> map_of (data ds1) k = Some (to_torch a)"
      "\<forall>j. j \<notin> fst ` set (derived_entries ds) \<longrightarrow> map_of (data ds1) j = map_of (data ds) j"
    using derived_loop_values [OF assms, of True] by blast
  have "compute_derived_data s False = Inr (s\<lparr>dataset_attr := Some ds1\<rparr>)"
    using assms(1,2) d(1) by (simp add: compute_derived_data_def dataset_property_def)
  moreover have "derived_entries ds1 = []"
    using d(2,3) by (cases "derived_entries ds = []") simp_all
  ultimately show ?thesis using d(4,5) by (intro exI [of _ ds1]) simp
qed

text \<open>
  The dataset with the derived entries \<^verbatim>\<open>a\<close> and \<^verbatim>\<open>b\<close>, the PCA of the columns \<^verbatim>\<open>data\<close> and
  \<^verbatim>\<open>labels\<close>: both become columns.
\<close>

lemma ex_pca:
  "pca ex_sk [DataArg (Tensor CPU x)] (kwargs (with_out_dim (DerivedDatasetEntry f r t [])))
     = Inr (Array (Tensor CPU x))"
  by (simp add: pca_def with_out_dim_def contains_def getitem_def bindE_def ex_sk_def)

lemma ex_dr_derived:
  "compute_derived_data (ex_dr :: (nat, TensorLike, 'L) ParametricDR) False
     = Inr (ex_dr\<lparr>dataset_attr := Some ex_dataset_derived\<rparr>)"
  by (simp add: compute_derived_data_def dataset_property_def ex_dr_def ex_dr_unregistered_def
      ex_dataset_def derive_entry_def with_out_dim_def contains_def Let_def store_entry_def
      bindE_def getitem_def add_to_dataset_def clear_definitions_def ex_dataset_derived_def
      pca_def ex_sk_def)

theorem compute_derived_data_all_entries_witness:
  "compute_derived_data (ex_dr :: (nat, TensorLike, unit) ParametricDR) False
     = Inr (ex_dr\<lparr>dataset_attr := Some ex_dataset_derived\<rparr>)
   \<and> map_of (data ex_dataset_derived) ''a'' = Some (Tensor CPU (Dim [Scalar 1, Scalar 2]))
   \<and> map_of (data ex_dataset_derived) ''b'' = Some (Tensor CPU (Dim [Scalar 3, Scalar 4]))
   \<and> map_of (data ex_dataset_derived) ''data'' = map_of (data ex_dataset) ''data''
   \<and> map_of (data ex_dataset_derived) ''labels'' = map_of (data ex_dataset) ''labels''
   \<and> map_of (data ex_dataset_derived) ''indices'' = map_of (data ex_dataset) ''indices''
   \<and> derived_entries ex_dataset_derived = []"
proof -
  have h: "dataset_registered (ex_dr :: (nat, TensorLike, unit) ParametricDR)"
    "dataset_attr (ex_dr :: (nat, TensorLike, unit) ParametricDR) = Some ex_dataset"
    "distinct (map fst (derived_entries ex_dataset))"
    by (simp_all add: ex_dr_def ex_dataset_def)
  have e: "\<forall>(k, e)\<in>set (derived_entries ex_dataset).
           (requires_relations e
              \<longrightarrow> global_relations_computed (ex_dr :: (nat, TensorLike, unit) ParametricDR))
         \<and> (\<forall>(i, j)\<in>set (type_key_tuples e).
               i = ''data'' \<longrightarrow> j \<notin> fst ` set (derived_entries ex_dataset))
         \<and> (\<exists>args a. select_args (data ex_dataset)
                        (global_relation_data (ex_dr :: (nat, TensorLike, unit) ParametricDR))
                        (type_key_tuples e) = Inr args
               \<and> func e args (kwargs (with_out_dim e)) = Inr (Array a))"
    by (simp add: ex_dataset_def ex_dr_def ex_dr_unregistered_def bindE_def getitem_def ex_pca)
  from compute_derived_data_all_entries [OF h e] obtain ds1 where
    "compute_derived_data (ex_dr :: (nat, TensorLike, unit) ParametricDR) False
       = Inr (ex_dr\<lparr>dataset_attr := Some ds1\<rparr>)"
    by blast
  then have "compute_derived_data (ex_dr :: (nat, TensorLike, unit) ParametricDR) False
     = Inr (ex_dr\<lparr>dataset_attr := Some ex_dataset_derived\<rparr>)"
    using ex_dr_derived [where ?'L = unit] by simp
  then show ?thesis
    by (simp add: ex_dataset_def ex_dataset_derived_def)
qed

text \<open>
  C5, the claim as stated: on the dataset with the two derived entries \<^verbatim>\<open>a\<close> and \<^verbatim>\<open>b\<close>, in
  this order, a single call with \<^verbatim>\<open>keep_definitions\<close> false computes the second entry too: the
  column \<^verbatim>\<open>b\<close>, absent before the call, holds the PCA of the column \<^verbatim>\<open>labels\<close> after it.
\<close>

theorem compute_derived_data_second_entry_counterexample:
  "map fst (derived_entries ex_dataset) = [''a'', ''b'']
   \<and> map_of (data ex_dataset) ''b'' = None
   \<and> compute_derived_data (ex_dr :: (nat, TensorLike, unit) ParametricDR) False
     = Inr (ex_dr\<lparr>dataset_attr := Some ex_dataset_derived\<rparr>)
   \<and> map_of (data ex_dataset_derived) ''b'' = Some (Tensor CPU (Dim [Scalar 3, Scalar 4]))
   \<and> pca ex_sk [DataArg (Tensor CPU (Dim [Scalar 3, Scalar 4]))] [(''out_dim'', PyInt 2)]
     = Inr (Array (Tensor CPU (Dim [Scalar 3, Scalar 4])))"
  using ex_dr_derived [where ?'L = unit]
  by (simp add: ex_dataset_def ex_dataset_derived_def pca_def getitem_def bindE_def ex_sk_def)

section \<open>Training and applying the model\<close>



















section \<open>The loss of a training phase\<close>

lemma batch_loop_measure:
  assumes "\<forall>l m g r b d v l'. loss_call P l m g r b d = Inr (v, l') \<longrightarrow> h l' = h l"
  shows "batch_loop P T dev bs (s, tp) = Inr (s1, tp1) \<Longrightarrow> tp_loss tp = Some l0 \<Longrightarrow>
         \<exists>l1. tp_loss tp1 = Some l1 \<and> h l1 = h l0"
proof (induction bs arbitrary: s tp l0)
  case Nil
  then show ?case by simp
next
  case (Cons b bs)
  from Cons.prems obtain v l' p' where
      c: "loss_call P l0 (model s) (global_relation_data s) (batch_relations s) b dev = Inr (v, l')"
      and r: "batch_loop P T dev bs
                (s\<lparr>model := (model s)\<lparr>parameters := p'\<rparr>\<rparr>, tp\<lparr>tp_loss := Some l'\<rparr>) = Inr (s1, tp1)"
    by (auto simp: TrainingPhase_loss_def bindE_def split: sum.splits)
  have "h l' = h l0" using assms c by blast
  moreover from Cons.IH [OF r, of l'] obtain l1 where "tp_loss tp1 = Some l1" "h l1 = h l'"
    by auto
  ultimately show ?case by simp
qed

lemma epoch_loop_measure:
  assumes "\<forall>l m g r b d v l'. loss_call P l m g r b d = Inr (v, l') \<longrightarrow> h l' = h l"
    and "\<forall>l l'. loss_checkpoint P l = Inr l' \<longrightarrow> h l' = Suc (h l)"
  shows "epoch_loop P T dev batches n epoch (s, tp) = Inr (s1, tp1) \<Longrightarrow> tp_loss tp = Some l0 \<Longrightarrow>
         \<exists>l1. tp_loss tp1 = Some l1 \<and> h l1 = h l0 + n"
proof (induction n arbitrary: epoch s tp l0)
  case 0
  then show ?case by simp
next
  case (Suc n)
  from Suc.prems(1) obtain s' tp' where
      b: "batch_loop P T dev (batches epoch) (s, tp) = Inr (s', tp')"
    by (auto split: sum.splits)
  from batch_loop_measure [OF assms(1) b Suc.prems(2)] obtain la where
      la: "tp_loss tp' = Some la" "h la = h l0"
    by auto
  from Suc.prems(1) b la(1) obtain l' where
      c: "loss_checkpoint P la = Inr l'"
      and r: "epoch_loop P T dev batches n (Suc epoch)
                (s'\<lparr>trained := True\<rparr>, tp'\<lparr>tp_loss := Some l'\<rparr>) = Inr (s1, tp1)"
    by (auto simp: TrainingPhase_loss_def bindE_def Let_def split: sum.splits)
  have "h l' = Suc (h la)" using assms(2) c by blast
  moreover from Suc.IH [OF r, of l'] obtain l1 where "tp_loss tp1 = Some l1" "h l1 = h l' + n"
    by auto
  ultimately show ?case using la(2) by simp
qed

text \<open>
  C1.  \<^verbatim>\<open>run_training_phase\<close> calls the loss of the phase with five arguments for every batch
  and calls its method \<^verbatim>\<open>checkpoint\<close> once at the end of every epoch: for a loss whose call
  leaves a measure of its history as it is and whose \<^verbatim>\<open>checkpoint\<close> advances it by one, a
  phase that has run holds a loss whose history has advanced by the number of epochs.  The
  classes of \<^verbatim>\<open>paradime.loss\<close> do not answer these calls: their \<^verbatim>\<open>forward\<close> takes four arguments,
  so the call of the first batch raises \<^verbatim>\<open>TypeError\<close> and leaves the instance and the phase as
  they were; and they define no \<^verbatim>\<open>checkpoint\<close>, so an epoch without batches ends with
  \<^verbatim>\<open>AttributeError\<close> unless the base class provides the method.
\<close>

theorem run_training_phase_loss_protocol:
  "((\<forall>l m g r b d v l'. loss_call P l m g r b d = Inr (v, l') \<longrightarrow> h l' = h l)
      \<and> (\<forall>l l'. loss_checkpoint P l = Inr l' \<longrightarrow> h l' = Suc (h l))
      \<and> run_training_phase P T batches s tp = Inr (s1, tp1) \<and> tp_loss tp = Some l0 \<longrightarrow>
        (\<exists>l1. tp_loss tp1 = Some l1 \<and> h l1 = h l0 + nat (epochs tp)))
   \<and> (prepare_loader sq tq batches = Inr dataloader \<and> prepare_optimizer Tq tq = Inr ()
        \<and> tp_loss tq = Some lq \<and> 1 \<le> epochs tq \<longrightarrow>
        (dataloader 0 \<noteq> [] \<longrightarrow>
           run_training_phase (pdloss_protocol ext base) Tq batches sq tq
             = Inl (TypeError, (sq, tq)))
      \<and> (dataloader 0 = [] \<and> base_checkpoint base = None \<longrightarrow>
           run_training_phase (pdloss_protocol ext base) Tq batches sq tq
             = Inl (AttributeError, (sq, tq))))
   \<and> Module_call ext lq 4 m4 h4 r4 b4 = forward ext lq m4 h4 r4 b4
   \<and> Module_call ext lq 5 m4 h4 r4 b4 = Inl TypeError"
proof -
  have A: "\<exists>l1. tp_loss tp1 = Some l1 \<and> h l1 = h l0 + nat (epochs tp)"
    if a: "\<forall>l m g r b d v l'. loss_call P l m g r b d = Inr (v, l') \<longrightarrow> h l' = h l"
      "\<forall>l l'. loss_checkpoint P l = Inr l' \<longrightarrow> h l' = Suc (h l)"
      and r: "run_training_phase P T batches s tp = Inr (s1, tp1)" and l: "tp_loss tp = Some l0"
  proof -
    from r obtain dl where
      "epoch_loop P T (model_device T (parameters (model s))) dl (nat (epochs tp)) 0 (s, tp)
         = Inr (s1, tp1)"
      by (auto simp: run_training_phase_def split: sum.splits)
    from epoch_loop_measure [OF a this l] show ?thesis .
  qed
  have call5: "Module_call ext l 5 m' h' r' b' = Inl TypeError" for l m' h' r' b'
    by (simp add: Module_call_def accepts_positional_def forward_parameters_def)
  have call4: "Module_call ext lq 4 m4 h4 r4 b4 = forward ext lq m4 h4 r4 b4"
    by (simp add: Module_call_def accepts_positional_def forward_parameters_def)
  have B: "(dataloader 0 \<noteq> [] \<longrightarrow>
           run_training_phase (pdloss_protocol ext base) Tq batches sq tq
             = Inl (TypeError, (sq, tq)))
      \<and> (dataloader 0 = [] \<and> base_checkpoint base = None \<longrightarrow>
           run_training_phase (pdloss_protocol ext base) Tq batches sq tq
             = Inl (AttributeError, (sq, tq)))"
    if p: "prepare_loader sq tq batches = Inr dataloader" "prepare_optimizer Tq tq = Inr ()"
      and l: "tp_loss tq = Some lq" and e: "1 \<le> epochs tq"
  proof -
    obtain n where n: "nat (epochs tq) = Suc n" using e by (cases "nat (epochs tq)") auto
    let ?dev = "model_device Tq (parameters (model sq))"
    have run: "run_training_phase (pdloss_protocol ext base) Tq batches sq tq
        = epoch_loop (pdloss_protocol ext base) Tq ?dev dataloader (Suc n) 0 (sq, tq)"
      using p n by (simp add: run_training_phase_def bindE_def)
    have 1: "epoch_loop (pdloss_protocol ext base) Tq ?dev dataloader (Suc n) 0 (sq, tq)
               = Inl (TypeError, (sq, tq))" if "dataloader 0 \<noteq> []"
    proof -
      from that obtain b bs where "dataloader 0 = b # bs" by (cases "dataloader 0") auto
      then show ?thesis
        using l by (simp add: pdloss_protocol_def TrainingPhase_loss_def bindE_def call5)
    qed
    have 2: "epoch_loop (pdloss_protocol ext base) Tq ?dev dataloader (Suc n) 0 (sq, tq)
               = Inl (AttributeError, (sq, tq))"
      if "dataloader 0 = []" "base_checkpoint base = None"
      using that l
      by (simp add: pdloss_protocol_def TrainingPhase_loss_def bindE_def inherited_def)
    show ?thesis using run 1 2 by simp
  qed
  show ?thesis using A B call4 call5 by blast
qed

text \<open>
  The loss that keeps the list of its checkpoints has one of them after a phase of one
  epoch.  The default phase bound to a relation loss, on the instance with its relations
  computed: the first batch raises \<^verbatim>\<open>TypeError\<close>, and without batches the end of the epoch
  raises \<^verbatim>\<open>AttributeError\<close>.
\<close>

lemma ex_run_phase:
  "run_training_phase ex_protocol ex_torch (ex_batches_one 0)
     (ex_dr_relations\<lparr>training_phases := [ex_phase]\<rparr>) ex_phase
   = Inr (ex_dr_relations\<lparr>training_phases := [ex_phase], model := ex_model\<lparr>parameters := 1\<rparr>,
                          trained := True\<rparr>,
          ex_phase\<lparr>tp_loss := Some [1]\<rparr>)"
  by (simp add: run_training_phase_def prepare_loader_def prepare_optimizer_def
      dataset_property_def bindE_def ex_dr_relations_def ex_dr_def ex_dr_unregistered_def
      ex_phase_def ex_default_phase_def ex_torch_def ex_protocol_def ex_batches_one_def
      TrainingPhase_loss_def report_def ex_model_def Let_def)

theorem run_training_phase_loss_protocol_witness:
  "run_training_phase ex_protocol ex_torch (ex_batches_one 0)
     (ex_dr_relations\<lparr>training_phases := [ex_phase]\<rparr>) ex_phase
   = Inr (ex_dr_relations\<lparr>training_phases := [ex_phase], model := ex_model\<lparr>parameters := 1\<rparr>,
                          trained := True\<rparr>,
          ex_phase\<lparr>tp_loss := Some [1]\<rparr>)
   \<and> length [1 :: real] = length ([] :: real list) + nat (epochs ex_phase)
   \<and> run_training_phase (pdloss_protocol ex_dr_ext ex_base) ex_torch (ex_batches_one 0)
       ex_dr_relations ex_loss_phase
     = Inl (TypeError, (ex_dr_relations, ex_loss_phase))
   \<and> run_training_phase (pdloss_protocol ex_dr_ext ex_base) ex_torch (\<lambda>epoch. [])
       ex_dr_relations ex_loss_phase
     = Inl (AttributeError, (ex_dr_relations, ex_loss_phase))"
proof -
  have p: "prepare_loader ex_dr_relations ex_loss_phase b = Inr b" for b
    by (simp add: prepare_loader_def dataset_property_def bindE_def ex_dr_relations_def
        ex_dr_def ex_dr_unregistered_def ex_loss_phase_def ex_default_phase_def)
  have o: "prepare_optimizer ex_torch ex_loss_phase = Inr ()"
    by (simp add: prepare_optimizer_def ex_torch_def)
  have l: "tp_loss ex_loss_phase = Some (RelationLoss ''rel_loss0'' (\<lambda>x y. Inr 0))"
    "1 \<le> epochs ex_loss_phase"
    by (simp_all add: ex_loss_phase_def ex_default_phase_def)
  have 1: "run_training_phase (pdloss_protocol ex_dr_ext ex_base) ex_torch (ex_batches_one 0)
       ex_dr_relations ex_loss_phase
     = Inl (TypeError, (ex_dr_relations, ex_loss_phase))"
    using run_training_phase_loss_protocol [where sq = ex_dr_relations and tq = ex_loss_phase
        and batches = "ex_batches_one 0" and dataloader = "ex_batches_one 0" and Tq = ex_torch
        and lq = "RelationLoss ''rel_loss0'' (\<lambda>x y. Inr 0)" and ext = ex_dr_ext
        and base = ex_base, THEN conjunct2, THEN conjunct1] p o l
    by (simp add: ex_batches_one_def)
  have 2: "run_training_phase (pdloss_protocol ex_dr_ext ex_base) ex_torch (\<lambda>epoch. [])
       ex_dr_relations ex_loss_phase
     = Inl (AttributeError, (ex_dr_relations, ex_loss_phase))"
    using run_training_phase_loss_protocol [where sq = ex_dr_relations and tq = ex_loss_phase
        and batches = "\<lambda>epoch. []" and dataloader = "\<lambda>epoch. []" and Tq = ex_torch
        and lq = "RelationLoss ''rel_loss0'' (\<lambda>x y. Inr 0)" and ext = ex_dr_ext
        and base = ex_base, THEN conjunct2, THEN conjunct1] p o l
    by (simp add: ex_base_def)
  show ?thesis using ex_run_phase 1 2 by (simp add: ex_phase_def)
qed

section \<open>Losses from a spec\<close>






end
